theory Spec2Isabelle
  imports Complex_Main "HOL-Library.Sublist"
begin

section \<open>Python values used by the scraper\<close>

text \<open>
  Python floats are idealised as real numbers: rounding, NaN and the infinities are not
  modelled. Python's unbounded integers are \<open>int\<close>, strings are \<open>string\<close> (ASCII
  code points only), timestamps are natural numbers (a linear order is all the code uses).
\<close>

datatype py_error = ValueError | TypeError | AttributeError | RequestException | PetFinderAPIError

text \<open>Truthiness of the values the code tests with \<open>if x\<close> or \<open>all([...])\<close>:
  \<open>None\<close> is false, a number is false exactly when it is zero, a string exactly when it
  is empty.\<close>

definition truthy_float :: "real option \<Rightarrow> bool" where
  "truthy_float v = (case v of None \<Rightarrow> False | Some x \<Rightarrow> x \<noteq> 0)"

definition truthy_int :: "int option \<Rightarrow> bool" where
  "truthy_int v = (case v of None \<Rightarrow> False | Some n \<Rightarrow> n \<noteq> 0)"

definition truthy_str :: "string option \<Rightarrow> bool" where
  "truthy_str v = (case v of None \<Rightarrow> False | Some s \<Rightarrow> s \<noteq> [])"

text \<open>\<open>str.strip()\<close>: removes leading and trailing whitespace. On ASCII strings the
  characters for which \<open>str.isspace\<close> holds are 0x09-0x0D, 0x1C-0x1F and the blank.\<close>

definition isspace :: "char \<Rightarrow> bool" where
  "isspace c = (c \<in> set [CHR 0x09, CHR 0x0A, CHR 0x0B, CHR 0x0C, CHR 0x0D,
                           CHR 0x1C, CHR 0x1D, CHR 0x1E, CHR 0x1F, CHR 0x20])"

definition strip :: "string \<Rightarrow> string" where
  "strip s = rev (dropWhile isspace (rev (dropWhile isspace s)))"


section \<open>models.py: the Pet model\<close>

text \<open>
  A row of the Pet table, projected on the columns that the operations below read:
  the primary key \<open>id\<close> (here \<open>pk\<close>), \<open>name\<close>, \<open>profile_url\<close>,
  \<open>primary_breed\<close>, \<open>latitude\<close>, \<open>longitude\<close> and \<open>created_at\<close>. Nullable
  columns are options. The remaining columns (photo, colour, age, sex, size, fee, city,
  state, zip, \<open>updated_at\<close>, \<open>scraped_at\<close>) are written by create and update and read by
  none of the operations modelled here.
\<close>

record pet =
  pk :: nat
  name :: string
  profile_url :: "string option"
  primary_breed :: "string option"
  latitude :: "real option"
  longitude :: "real option"
  created_at :: nat

subsection \<open>Pet.calculate\_distance\<close>

text \<open>\<open>math.radians\<close> and \<open>math.atan2\<close> on real numbers.\<close>

definition radians :: "real \<Rightarrow> real" where
  "radians d = d * (pi / 180)"

definition atan2 :: "real \<Rightarrow> real \<Rightarrow> real" where
  "atan2 y x =
     (if 0 < x then arctan (y / x)
      else if x < 0 then (if 0 \<le> y then arctan (y / x) + pi else arctan (y / x) - pi)
      else if 0 < y then pi / 2
      else if y < 0 then - (pi / 2)
      else 0)"

text \<open>The quantity \<open>a\<close> of the haversine formula (lines 221-228 of models.py) and the
  distance \<open>R * c\<close> with \<open>R = 3959\<close> (lines 219, 229-231). \<open>math.sqrt\<close> raises on a
  negative argument; \<open>haversine_a_range\<close> below shows that over the reals both arguments
  lie in \<open>[0, 1]\<close>, so the formula is written with the total \<open>sqrt\<close>.\<close>

definition haversine_a :: "real \<Rightarrow> real \<Rightarrow> real \<Rightarrow> real \<Rightarrow> real" where
  "haversine_a self_lat self_lon target_lat target_lon =
     (let lat1_rad = radians self_lat;
          lat2_rad = radians target_lat;
          delta_lat = radians (target_lat - self_lat);
          delta_lon = radians (target_lon - self_lon)
      in (sin (delta_lat / 2))\<^sup>2 + cos lat1_rad * cos lat2_rad * (sin (delta_lon / 2))\<^sup>2)"

definition haversine :: "real \<Rightarrow> real \<Rightarrow> real \<Rightarrow> real \<Rightarrow> real" where
  "haversine self_lat self_lon target_lat target_lon =
     (let a = haversine_a self_lat self_lon target_lat target_lon;
          c = 2 * atan2 (sqrt a) (sqrt (1 - a))
      in 3959 * c)"

text \<open>The method itself: \<open>None\<close> unless all four coordinates are truthy (line 215).\<close>

definition calculate_distance :: "pet \<Rightarrow> real option \<Rightarrow> real option \<Rightarrow> real option" where
  "calculate_distance self target_lat target_lon =
     (if \<not> (truthy_float (latitude self) \<and> truthy_float (longitude self)
             \<and> truthy_float target_lat \<and> truthy_float target_lon)
      then None
      else (case (latitude self, longitude self, target_lat, target_lon) of
              (Some self_lat, Some self_lon, Some lat, Some lon) \<Rightarrow>
                 Some (haversine self_lat self_lon lat lon)
            | _ \<Rightarrow> None))"

text \<open>The temporary object \<open>Pet(latitude=pet_lat, longitude=pet_lon)\<close> of
  services.py line 236: every other field takes its default.\<close>

definition temp_pet :: "real option \<Rightarrow> real option \<Rightarrow> pet" where
  "temp_pet pet_lat pet_lon =
     \<lparr>pk = 0, name = ''Unknown Pet'', profile_url = None, primary_breed = None,
      latitude = pet_lat, longitude = pet_lon, created_at = 0\<rparr>"



section \<open>services.py: PetFinderScraper\<close>

subsection \<open>build\_search\_url\<close>

text \<open>The argument \<open>distance\<close> is annotated \<open>int\<close>, tested against \<open>None\<close> and passed
  through \<open>int(...)\<close>, which also accepts strings. The three kinds of value are kept.\<close>

datatype py_value = PyNone | PyInt int | PyStr string

text \<open>\<open>int(s)\<close> for a string, base 10: surrounding whitespace is dropped, one sign is
  allowed, then come decimal digits, single underscores allowed between digits. Anything
  else raises \<open>ValueError\<close>.\<close>

definition isdigit :: "char \<Rightarrow> bool" where
  "isdigit c = (c \<in> set ''0123456789'')"

definition digits_value :: "string \<Rightarrow> nat" where
  "digits_value s = foldl (\<lambda>n c. 10 * n + (of_char c - 48)) 0 s"

fun split_on :: "char \<Rightarrow> string \<Rightarrow> string list" where
  "split_on sep [] = [[]]"
| "split_on sep (c # cs) =
     (if c = sep then [] # split_on sep cs
      else (case split_on sep cs of g # gs \<Rightarrow> (c # g) # gs | [] \<Rightarrow> [[c]]))"

definition int_of_str :: "string \<Rightarrow> py_error + int" where
  "int_of_str s =
     (let t = strip s;
          negative = (case t of c # _ \<Rightarrow> c = CHR ''-'' | [] \<Rightarrow> False);
          body = (case t of c # r \<Rightarrow> if c = CHR ''-'' \<or> c = CHR ''+'' then r else t | [] \<Rightarrow> t);
          groups = split_on CHR ''_'' body
      in if list_all (\<lambda>g. g \<noteq> [] \<and> list_all isdigit g) groups
         then Inr ((if negative then - 1 else 1) * int (digits_value (concat groups)))
         else Inl ValueError)"

definition py_int :: "py_value \<Rightarrow> py_error + int" where
  "py_int v = (case v of PyNone \<Rightarrow> Inl TypeError | PyInt n \<Rightarrow> Inr n | PyStr s \<Rightarrow> int_of_str s)"

text \<open>\<open>str(n)\<close> for an integer, as an f-string prints it.\<close>

definition digit_char :: "nat \<Rightarrow> char" where
  "digit_char k = ''0123456789'' ! k"

fun str_nat :: "nat \<Rightarrow> string" where
  "str_nat n = (if n < 10 then [digit_char n] else str_nat (n div 10) @ [digit_char (n mod 10)])"

definition str_int :: "int \<Rightarrow> string" where
  "str_int i = (if i < 0 then CHR ''-'' # str_nat (nat (- i)) else str_nat (nat i))"

text \<open>\<open>sep.join(parts)\<close>.\<close>

fun join :: "string \<Rightarrow> string list \<Rightarrow> string" where
  "join sep [] = []"
| "join sep [p] = p"
| "join sep (p # q # ps) = p @ sep @ join sep (q # ps)"

definition BASE_URL :: string where
  "BASE_URL = ''https://www.petfinder.com/search/''"

text \<open>Lines 67-76: the default for \<open>None\<close>, the conversion, the clamp.\<close>

definition clamp_distance :: "py_value \<Rightarrow> py_error + int" where
  "clamp_distance distance =
     (case py_int (if distance = PyNone then PyInt 100 else distance) of
        Inl e \<Rightarrow> Inl e
      | Inr d \<Rightarrow> Inr (if d < 1 then 1 else if d > 500 then 500 else d))"

text \<open>Lines 78-97. \<open>page\<close> and \<open>limit\<close> are integers and \<open>animal\<close> is a string, so the
  test \<open>value is not None\<close> of line 92 holds for every parameter.\<close>

definition build_search_url ::
  "string \<Rightarrow> string \<Rightarrow> string \<Rightarrow> int \<Rightarrow> int \<Rightarrow> py_value \<Rightarrow> py_error + string" where
  "build_search_url city state animal page limit distance =
     (case clamp_distance distance of
        Inl e \<Rightarrow> Inl e
      | Inr d \<Rightarrow>
          (let params =
                 [(''page'', str_int page),
                  (''limit[]'', str_int limit),
                  (''status'', ''adoptable''),
                  (''distance[]'', str_int d),
                  (''type[]'', animal),
                  (''sort[]'', ''nearest''),
                  (''location_slug[]'', ''us%2F'' @ state @ ''%2F'' @ city),
                  (''include_transportable'', ''true'')];
               query_parts = map (\<lambda>(key, value). key @ ''='' @ value) params
           in Inr (BASE_URL @ ''?'' @ join ''&'' query_parts)))"

subsection \<open>fetch\_page\_data\<close>

text \<open>A parsed JSON body, as \<open>response.json()\<close> returns it.\<close>

datatype json =
    JNull
  | JBool bool
  | JInt int
  | JFloat real
  | JStr string
  | JArr "json list"
  | JObj "(string \<times> json) list"

text \<open>What the HTTP exchange for a URL yields. \<open>RequestFailed\<close>: \<open>session.get\<close> or
  \<open>raise_for_status\<close> raised a \<open>requests.exceptions.RequestException\<close> (timeout,
  connection error, error status). \<open>NotJson\<close>: \<open>response.json()\<close> raised, the body is
  not valid JSON. \<open>Body data\<close>: the parsed body.\<close>

datatype http_result = RequestFailed | NotJson | Body json

text \<open>The test \<open>'result' in data\<close> of line 120: key membership for a dict, element
  membership for a list, substring for a string; any other value is not iterable and the
  operator raises \<open>TypeError\<close>.\<close>

definition result_in :: "json \<Rightarrow> py_error + bool" where
  "result_in data =
     (case data of
        JObj items \<Rightarrow> Inr (''result'' \<in> set (map fst items))
      | JArr elems \<Rightarrow> Inr (JStr ''result'' \<in> set elems)
      | JStr s \<Rightarrow> Inr (sublist ''result'' s)
      | _ \<Rightarrow> Inl TypeError)"

text \<open>Lines 112-130. Both \<open>except\<close> clauses re-raise as \<open>PetFinderAPIError\<close>; they catch
  \<open>RequestException\<close> and \<open>ValueError\<close> only, so a \<open>TypeError\<close> of line 120 passes
  through, as does the \<open>PetFinderAPIError\<close> of line 121.\<close>

definition fetch_page_data :: "(string \<Rightarrow> http_result) \<Rightarrow> string \<Rightarrow> py_error + json" where
  "fetch_page_data session_get url =
     (case session_get url of
        RequestFailed \<Rightarrow> Inl PetFinderAPIError
      | NotJson \<Rightarrow> Inl PetFinderAPIError
      | Body data \<Rightarrow>
          (case result_in data of
             Inl e \<Rightarrow> (if e = ValueError \<or> e = RequestException then Inl PetFinderAPIError else Inl e)
           | Inr present \<Rightarrow> if \<not> present then Inl PetFinderAPIError else Inr data))"


subsection \<open>The Pet table and the queries used\<close>

text \<open>The table is the list of its rows in insertion order, with the counter of the
  auto-incremented primary key.\<close>

record database =
  rows :: "pet list"
  next_pk :: nat

text \<open>\<open>order_by('-created_at')\<close>, also the default ordering of the model (\<open>Meta.ordering\<close>).
  The order of rows with equal \<open>created_at\<close> is left to the database; here the row
  inserted later comes first.\<close>

definition order_by_created_desc :: "pet list \<Rightarrow> pet list" where
  "order_by_created_desc ps = rev (sort_key created_at ps)"

text \<open>\<open>queryset.first()\<close> on the default ordering.\<close>

definition first :: "pet list \<Rightarrow> pet option" where
  "first ps = (case order_by_created_desc ps of [] \<Rightarrow> None | p # _ \<Rightarrow> Some p)"

text \<open>\<open>instance.save()\<close> of a row read from the table: \<open>UPDATE ... WHERE id = pk\<close>.\<close>

definition save_row :: "pet \<Rightarrow> database \<Rightarrow> database" where
  "save_row p db = db\<lparr>rows := map (\<lambda>q. if pk q = pk p then p else q) (rows db)\<rparr>"

text \<open>\<open>instance.delete()\<close>: \<open>DELETE ... WHERE id = pk\<close>.\<close>

definition delete_pet :: "pet \<Rightarrow> pet list \<Rightarrow> pet list" where
  "delete_pet p ps = filter (\<lambda>q. pk q \<noteq> pk p) ps"

subsection \<open>save\_pets\_to\_database\<close>

text \<open>
  A normalised record, the dictionary that \<open>extract_pet_data\<close> builds, projected on the
  keys of the modelled columns. \<open>name\<close>, \<open>primary_breed\<close> and \<open>profile_url\<close> are always
  present and strings. The keys \<open>latitude\<close> and \<open>longitude\<close> are present only when the
  raw record has a \<open>geo\<close> object: \<open>None\<close> is an absent key, \<open>Some None\<close> the value
  \<open>None\<close>, \<open>Some (Some x)\<close> a number. The dictionary has no key \<open>id\<close>.
\<close>

record pet_data =
  pd_name :: string
  pd_primary_breed :: string
  pd_profile_url :: string
  pd_latitude :: "real option option"
  pd_longitude :: "real option option"

text \<open>\<open>pet_data.get(key)\<close> for an optional key.\<close>

definition dict_get :: "'a option option \<Rightarrow> 'a option" where
  "dict_get entry = (case entry of None \<Rightarrow> None | Some v \<Rightarrow> v)"

text \<open>\<open>Pet.objects.create(**pet_data)\<close> (line 272). A column without a key takes its
  default: null for the coordinates, \<open>timezone.now()\<close> for \<open>created_at\<close>. The clock is a
  parameter: \<open>now k\<close> is its reading when the row with primary key \<open>k\<close> is created.\<close>

definition objects_create :: "(nat \<Rightarrow> nat) \<Rightarrow> pet_data \<Rightarrow> database \<Rightarrow> database" where
  "objects_create now d db =
     \<lparr>rows = rows db @
        [\<lparr>pk = next_pk db,
          name = pd_name d,
          profile_url = Some (pd_profile_url d),
          primary_breed = Some (pd_primary_breed d),
          latitude = dict_get (pd_latitude d),
          longitude = dict_get (pd_longitude d),
          created_at = now (next_pk db)\<rparr>],
      next_pk = Suc (next_pk db)\<rparr>"

text \<open>The \<open>setattr\<close> loop of lines 264-266: every key of the dictionary overwrites the
  attribute, an absent key leaves it.\<close>

definition set_attrs :: "pet \<Rightarrow> pet_data \<Rightarrow> pet" where
  "set_attrs existing_pet d =
     existing_pet
       \<lparr>name := pd_name d,
        profile_url := Some (pd_profile_url d),
        primary_breed := Some (pd_primary_breed d),
        latitude := (case pd_latitude d of None \<Rightarrow> latitude existing_pet | Some v \<Rightarrow> v),
        longitude := (case pd_longitude d of None \<Rightarrow> longitude existing_pet | Some v \<Rightarrow> v)\<rparr>"

text \<open>Lines 229-248: whether the \<open>continue\<close> of line 245 is reached for a record.\<close>

definition distance_filtered ::
  "real option \<Rightarrow> real option \<Rightarrow> int option \<Rightarrow> pet_data \<Rightarrow> bool" where
  "distance_filtered search_lat search_lon max_distance d =
     (if truthy_float search_lat \<and> truthy_float search_lon \<and> truthy_int max_distance then
        (let pet_lat = dict_get (pd_latitude d);
             pet_lon = dict_get (pd_longitude d)
         in if truthy_float pet_lat \<and> truthy_float pet_lon then
              (case (calculate_distance (temp_pet pet_lat pet_lon) search_lat search_lon,
                     max_distance) of
                 (None, _) \<Rightarrow> True
               | (Some distance, Some m) \<Rightarrow> distance > real_of_int m
               | (Some distance, None) \<Rightarrow> False)
            else False)
      else False)"

record save_state =
  db :: database
  saved_count :: nat
  updated_count :: nat
  filtered_count :: nat

text \<open>Lines 250-274: the lookup by stripped profile URL, then update or create.\<close>

definition upsert :: "(nat \<Rightarrow> nat) \<Rightarrow> pet_data \<Rightarrow> save_state \<Rightarrow> save_state" where
  "upsert now d st =
     (let url = strip (pd_profile_url d);
          existing_pet =
            (if url \<noteq> [] then first (filter (\<lambda>p. profile_url p = Some url) (rows (db st)))
             else None)
      in case existing_pet of
           Some p \<Rightarrow> st\<lparr>db := save_row (set_attrs p d) (db st),
                        updated_count := updated_count st + 1\<rparr>
         | None \<Rightarrow> st\<lparr>db := objects_create now d (db st),
                      saved_count := saved_count st + 1\<rparr>)"

text \<open>The body of the loop of line 227. With the typed records of this model no statement
  of the body raises, so the handler of line 276 has no case.\<close>

definition save_pet ::
  "(nat \<Rightarrow> nat) \<Rightarrow> real option \<Rightarrow> real option \<Rightarrow> int option \<Rightarrow> pet_data \<Rightarrow> save_state \<Rightarrow> save_state"
  where
  "save_pet now search_lat search_lon max_distance d st =
     (if distance_filtered search_lat search_lon max_distance d
      then st\<lparr>filtered_count := filtered_count st + 1\<rparr>
      else upsert now d st)"

text \<open>Lines 219-224: the origin of the search. \<open>get_coordinates_cached\<close> (geocoding.py,
  a static table in front of an external geocoder) is a parameter.\<close>

definition search_origin ::
  "(string \<Rightarrow> string \<Rightarrow> real option \<times> real option) \<Rightarrow> string option \<Rightarrow> string option
     \<Rightarrow> int option \<Rightarrow> real option \<times> real option" where
  "search_origin get_coordinates_cached search_city search_state max_distance =
     (case (search_city, search_state) of
        (Some city, Some state) \<Rightarrow>
          if city \<noteq> [] \<and> state \<noteq> [] \<and> truthy_int max_distance
          then get_coordinates_cached city state
          else (None, None)
      | _ \<Rightarrow> (None, None))"

definition save_loop ::
  "(nat \<Rightarrow> nat) \<Rightarrow> real option \<times> real option \<Rightarrow> int option \<Rightarrow> pet_data list \<Rightarrow> database
     \<Rightarrow> save_state" where
  "save_loop now origin max_distance pets_data d0 =
     fold (save_pet now (fst origin) (snd origin) max_distance) pets_data
       \<lparr>db = d0, saved_count = 0, updated_count = 0, filtered_count = 0\<rparr>"

text \<open>The method returns \<open>saved_count\<close>; the table after the call is the second component.\<close>

definition save_pets_to_database ::
  "(string \<Rightarrow> string \<Rightarrow> real option \<times> real option) \<Rightarrow> (nat \<Rightarrow> nat) \<Rightarrow> pet_data list
     \<Rightarrow> string option \<Rightarrow> string option \<Rightarrow> int option \<Rightarrow> database \<Rightarrow> nat \<times> database" where
  "save_pets_to_database get_coordinates_cached now pets_data search_city search_state
       max_distance d0 =
     (let origin = search_origin get_coordinates_cached search_city search_state max_distance;
          st = save_loop now origin max_distance pets_data d0
      in (saved_count st, db st))"


subsection \<open>scrape\_pets\<close>

text \<open>What the method reaches outside the program: the HTTP exchange per URL, the
  geocoder behind \<open>get_coordinates_cached\<close> and the clock. \<open>extract_pet_data\<close>
  (lines 132-199) is a pure function of one raw record that returns a normalised record or
  raises; it is kept as a parameter as well.\<close>

record world =
  http :: "string \<Rightarrow> http_result"
  extract_pet_data :: "json \<Rightarrow> py_error + pet_data"
  get_coordinates_cached :: "string \<Rightarrow> string \<Rightarrow> real option \<times> real option"
  clock :: "nat \<Rightarrow> nat"

text \<open>The observable steps of a scrape, in the order they happen: a request for a URL
  (\<open>session.get\<close>, line 114), \<open>time.sleep(n)\<close> (line 327), and the error logged when a
  page is given up (line 339).\<close>

datatype event = Fetch string | Sleep nat | LogPageError int

text \<open>\<open>obj.get(key, default)\<close> on a parsed JSON value: only a dict has the method.\<close>

definition json_get :: "json \<Rightarrow> string \<Rightarrow> json \<Rightarrow> py_error + json" where
  "json_get obj key default_value =
     (case obj of
        JObj items \<Rightarrow> Inr (case map_of items key of Some v \<Rightarrow> v | None \<Rightarrow> default_value)
      | _ \<Rightarrow> Inl AttributeError)"

text \<open>Iteration \<open>for x in v\<close>: the elements of a list, the characters of a string, the
  keys of a dict; other values raise \<open>TypeError\<close>.\<close>

definition py_iter :: "json \<Rightarrow> py_error + json list" where
  "py_iter v =
     (case v of
        JArr elems \<Rightarrow> Inr elems
      | JStr s \<Rightarrow> Inr (map (\<lambda>c. JStr [c]) s)
      | JObj items \<Rightarrow> Inr (map (\<lambda>item. JStr (fst item)) items)
      | _ \<Rightarrow> Inl TypeError)"

text \<open>Lines 307-308.\<close>

definition total_pages_of :: "json \<Rightarrow> py_error + json" where
  "total_pages_of first_page_data =
     (case json_get first_page_data ''result'' (JObj []) of
        Inl e \<Rightarrow> Inl e
      | Inr result \<Rightarrow>
          (case json_get result ''pagination'' (JObj []) of
             Inl e \<Rightarrow> Inl e
           | Inr pagination \<Rightarrow> json_get pagination ''total_pages'' (JInt 1)))"

text \<open>Line 313 with the \<open>range\<close> of line 318: \<open>min(max_pages, total_pages)\<close> returns its
  second argument when that is smaller; the comparison raises on a value that is not a
  number, and \<open>range\<close> raises on a float.\<close>

definition pages_to_scrape :: "int \<Rightarrow> json \<Rightarrow> py_error + int" where
  "pages_to_scrape max_pages total_pages =
     (case total_pages of
        JInt n \<Rightarrow> Inr (if n < max_pages then n else max_pages)
      | JBool b \<Rightarrow> Inr (if (if b then 1 else 0) < max_pages then (if b then 1 else 0) else max_pages)
      | JFloat x \<Rightarrow> if x < real_of_int max_pages then Inl TypeError else Inr max_pages
      | _ \<Rightarrow> Inl TypeError)"

text \<open>Lines 320-327: the data of page \<open>page_num\<close> and the events of obtaining it.\<close>

definition py_distance :: "int option \<Rightarrow> py_value" where
  "py_distance distance = (case distance of None \<Rightarrow> PyNone | Some n \<Rightarrow> PyInt n)"

definition get_page ::
  "world \<Rightarrow> string \<Rightarrow> string \<Rightarrow> string \<Rightarrow> int option \<Rightarrow> json \<Rightarrow> int
     \<Rightarrow> (py_error + json) \<times> event list" where
  "get_page w city state animal distance first_page_data page_num =
     (if page_num = 1 then (Inr first_page_data, [])
      else
        (case build_search_url city state animal page_num 100 (py_distance distance) of
           Inl e \<Rightarrow> (Inl e, [])
         | Inr page_url \<Rightarrow>
             (case fetch_page_data (http w) page_url of
                Inl e \<Rightarrow> (Inl e, [Fetch page_url])
              | Inr page_data \<Rightarrow> (Inr page_data, [Fetch page_url, Sleep 2]))))"

text \<open>Line 330.\<close>

definition page_animals :: "json \<Rightarrow> py_error + json list" where
  "page_animals page_data =
     (case json_get page_data ''result'' (JObj []) of
        Inl e \<Rightarrow> Inl e
      | Inr result \<Rightarrow>
          (case json_get result ''animals'' (JArr []) of
             Inl e \<Rightarrow> Inl e
           | Inr animals \<Rightarrow> py_iter animals))"

text \<open>Lines 332-334: records are appended one by one; when \<open>extract_pet_data\<close> raises,
  the loop ends and the records appended so far stay. The flag tells whether the loop
  ran to its end.\<close>

fun extract_animals ::
  "(json \<Rightarrow> py_error + pet_data) \<Rightarrow> json list \<Rightarrow> pet_data list \<Rightarrow> pet_data list \<times> bool" where
  "extract_animals extract [] all_pets_data = (all_pets_data, True)"
| "extract_animals extract (animal_data # animals) all_pets_data =
     (case extract animal_data of
        Inl e \<Rightarrow> (all_pets_data, False)
      | Inr d \<Rightarrow> extract_animals extract animals (all_pets_data @ [d]))"

text \<open>The body of the loop of line 318, with its handler (lines 338-340).\<close>

definition scrape_page ::
  "world \<Rightarrow> string \<Rightarrow> string \<Rightarrow> string \<Rightarrow> int option \<Rightarrow> json \<Rightarrow> int
     \<Rightarrow> pet_data list \<times> event list \<Rightarrow> pet_data list \<times> event list" where
  "scrape_page w city state animal distance first_page_data page_num acc =
     (case acc of (all_pets_data, trace) \<Rightarrow>
        (case get_page w city state animal distance first_page_data page_num of
           (Inl e, evs) \<Rightarrow> (all_pets_data, trace @ evs @ [LogPageError page_num])
         | (Inr page_data, evs) \<Rightarrow>
             (case page_animals page_data of
                Inl e \<Rightarrow> (all_pets_data, trace @ evs @ [LogPageError page_num])
              | Inr animals \<Rightarrow>
                  (case extract_animals (extract_pet_data w) animals all_pets_data of
                     (all_pets_data', completed) \<Rightarrow>
                       (all_pets_data',
                        if completed then trace @ evs
                        else trace @ evs @ [LogPageError page_num])))))"

text \<open>Lines 301-356. The result is the returned pair or the error raised, the table after
  the call, and the events. Every exception that leaves the outer \<open>try\<close> is re-raised as
  \<open>PetFinderAPIError\<close> (line 356).\<close>

definition scrape_pets ::
  "world \<Rightarrow> string \<Rightarrow> string \<Rightarrow> string \<Rightarrow> int \<Rightarrow> int option \<Rightarrow> database
     \<Rightarrow> (py_error + json \<times> nat) \<times> database \<times> event list" where
  "scrape_pets w city state animal max_pages distance d0 =
     (case build_search_url city state animal 1 100 (py_distance distance) of
        Inl e \<Rightarrow> (Inl PetFinderAPIError, d0, [])
      | Inr first_page_url \<Rightarrow>
          (case fetch_page_data (http w) first_page_url of
             Inl e \<Rightarrow> (Inl PetFinderAPIError, d0, [Fetch first_page_url])
           | Inr first_page_data \<Rightarrow>
               (case total_pages_of first_page_data of
                  Inl e \<Rightarrow> (Inl PetFinderAPIError, d0, [Fetch first_page_url])
                | Inr total_pages \<Rightarrow>
                    (case pages_to_scrape max_pages total_pages of
                       Inl e \<Rightarrow> (Inl PetFinderAPIError, d0, [Fetch first_page_url])
                     | Inr n \<Rightarrow>
                         (case fold (scrape_page w city state animal distance first_page_data)
                                 [1..n] ([], [Fetch first_page_url]) of
                            (all_pets_data, trace) \<Rightarrow>
                              (case save_pets_to_database (get_coordinates_cached w) (clock w)
                                      all_pets_data (Some city) (Some state) distance d0 of
                                 (pets_saved, d1) \<Rightarrow>
                                   (Inr (total_pages, pets_saved), d1, trace)))))))"

subsection \<open>remove\_duplicate\_pets\<close>

text \<open>Lines 418-420: the profile URLs, not null and not empty, that more than one row
  carries. The groups are disjoint, so the order in which the database lists them does not
  change the outcome; here it is the order of first occurrence.\<close>

definition profile_duplicates :: "pet list \<Rightarrow> string list" where
  "profile_duplicates ps =
     remdups (filter (\<lambda>u. u \<noteq> [] \<and> 1 < length (filter (\<lambda>q. profile_url q = Some u) ps))
                (concat (map (\<lambda>p. case profile_url p of None \<Rightarrow> [] | Some u \<Rightarrow> [u]) ps)))"

text \<open>Lines 431-433: the pairs of name and primary breed that more than one row carries.\<close>

definition name_breed_duplicates :: "pet list \<Rightarrow> (string \<times> string option) list" where
  "name_breed_duplicates ps =
     remdups (filter (\<lambda>k. 1 < length (filter (\<lambda>q. (name q, primary_breed q) = k) ps))
                (map (\<lambda>p. (name p, primary_breed p)) ps))"

text \<open>Lines 425-427 and 441-443: \<open>for pet in pets[1:]: pet.delete(); removed_count += 1\<close>.\<close>

definition delete_rest :: "pet list \<Rightarrow> pet list \<times> nat \<Rightarrow> pet list \<times> nat" where
  "delete_rest pets st =
     fold (\<lambda>p s. (delete_pet p (fst s), snd s + 1)) (tl pets) st"

text \<open>The two loops of lines 422 and 435 have the same shape: for each duplicated key,
  the rows with that key are read most recent first and all but the first are deleted.
  \<open>key\<close> is the grouping: the profile URL in the first loop, name and primary breed in
  the second.\<close>

definition sweep :: "(pet \<Rightarrow> 'k) \<Rightarrow> 'k list \<Rightarrow> pet list \<times> nat \<Rightarrow> pet list \<times> nat" where
  "sweep key duplicates st =
     fold (\<lambda>k s. delete_rest (order_by_created_desc (filter (\<lambda>q. key q = k) (fst s))) s)
       duplicates st"

text \<open>The function returns \<open>removed_count\<close>; the rows left are the second component.\<close>

definition remove_duplicate_pets :: "pet list \<Rightarrow> nat \<times> pet list" where
  "remove_duplicate_pets ps =
     (let s1 = sweep profile_url (map Some (profile_duplicates ps)) (ps, 0);
          s2 = sweep (\<lambda>p. (name p, primary_breed p)) (name_breed_duplicates (fst s1)) s1
      in (snd s2, fst s2))"


section \<open>Predicates used in the statements\<close>

text \<open>A well-formed table: primary keys are unique and below the counter.\<close>

definition wf_database :: "database \<Rightarrow> bool" where
  "wf_database d = (distinct (map pk (rows d)) \<and> list_all (\<lambda>k. k < next_pk d) (map pk (rows d)))"

text \<open>At most one row has any given non-empty profile URL: the list of the profile URLs
  that are neither null nor empty has no repetition.\<close>

definition unique_profile_urls :: "pet list \<Rightarrow> bool" where
  "unique_profile_urls ps =
     distinct (filter (\<lambda>v. v \<noteq> None \<and> v \<noteq> Some []) (map profile_url ps))"

text \<open>The number of rows with a given profile URL.\<close>

definition count_profile_url :: "string \<Rightarrow> pet list \<Rightarrow> nat" where
  "count_profile_url u ps = length (filter (\<lambda>p. profile_url p = Some u) ps)"

text \<open>A record as \<open>extract_pet_data\<close> leaves it (lines 176-181): the profile URL
  carries no surrounding whitespace.\<close>

definition normalized :: "pet_data \<Rightarrow> bool" where
  "normalized d = (strip (pd_profile_url d) = pd_profile_url d)"

text \<open>The column of profile URLs, and its entries that are neither null nor empty.\<close>

definition profile_urls :: "save_state \<Rightarrow> string option list" where
  "profile_urls st = map profile_url (rows (db st))"

definition nonempty_urls :: "string option list \<Rightarrow> string option list" where
  "nonempty_urls us = filter (\<lambda>v. v \<noteq> None \<and> v \<noteq> Some []) us"

text \<open>The URL that \<open>scrape_pets\<close> builds for a page (lines 303 and 325; the page size
  is the default 100). With an integer or absent distance \<open>build_search_url\<close> does not raise.\<close>

definition search_url :: "string \<Rightarrow> string \<Rightarrow> string \<Rightarrow> int option \<Rightarrow> int \<Rightarrow> string" where
  "search_url city state animal distance page_num =
     (case build_search_url city state animal page_num 100 (py_distance distance) of
        Inl e \<Rightarrow> [] | Inr url \<Rightarrow> url)"

text \<open>The records and the events that the loop body contributes for one page.\<close>

definition page_records ::
  "world \<Rightarrow> string \<Rightarrow> string \<Rightarrow> string \<Rightarrow> int option \<Rightarrow> json \<Rightarrow> int \<Rightarrow> pet_data list" where
  "page_records w city state animal distance first_page_data page_num =
     fst (scrape_page w city state animal distance first_page_data page_num ([], []))"

definition page_events ::
  "world \<Rightarrow> string \<Rightarrow> string \<Rightarrow> string \<Rightarrow> int option \<Rightarrow> json \<Rightarrow> int \<Rightarrow> event list" where
  "page_events w city state animal distance first_page_data page_num =
     snd (scrape_page w city state animal distance first_page_data page_num ([], []))"

text \<open>The records that lines 330-334 take from the data of one page: those before the first
  raw record on which \<open>extract_pet_data\<close> raises, none when the page has no iterable
  list of animals.\<close>

definition records_of :: "world \<Rightarrow> json \<Rightarrow> pet_data list" where
  "records_of w page_data =
     (case page_animals page_data of
        Inl e \<Rightarrow> []
      | Inr animals \<Rightarrow> fst (extract_animals (extract_pet_data w) animals []))"

text \<open>The batch of a scrape of \<open>n\<close> pages: the records of the first page, then for
  each later page the records of its data when its fetch succeeded and nothing otherwise.\<close>

definition scraped_batch ::
  "world \<Rightarrow> string \<Rightarrow> string \<Rightarrow> string \<Rightarrow> int option \<Rightarrow> json \<Rightarrow> int \<Rightarrow> pet_data list" where
  "scraped_batch w city state animal distance first_page_data n =
     concat (map (\<lambda>k. if k = 1 then records_of w first_page_data
                        else (case fetch_page_data (http w) (search_url city state animal distance k) of
                                Inl e \<Rightarrow> []
                              | Inr page_data \<Rightarrow> records_of w page_data))
               [1..n])"

text \<open>The events that are log entries; the others are requests and delays.\<close>

definition is_log :: "event \<Rightarrow> bool" where
  "is_log e = (case e of LogPageError k \<Rightarrow> True | _ \<Rightarrow> False)"

text \<open>The events that precede the first occurrence of an event.\<close>

definition events_before :: "event \<Rightarrow> event list \<Rightarrow> event list" where
  "events_before e trace = takeWhile (\<lambda>x. x \<noteq> e) trace"

text \<open>The row that a sweep keeps of the group with key \<open>k\<close>: the first in the order
  of \<open>order_by_created_desc\<close>.\<close>

definition keeper :: "(pet \<Rightarrow> 'k) \<Rightarrow> 'k \<Rightarrow> pet list \<Rightarrow> pet" where
  "keeper key k rws = hd (order_by_created_desc (filter (\<lambda>q. key q = k) rws))"


section \<open>Concrete inputs\<close>

text \<open>Inputs at which the theorems below are instantiated: a geocoder that finds nothing,
  one that resolves every city to the coordinates of Seattle (geocoding.py line 75), a clock that reads the
  primary key, the empty table, and a record with a given profile URL and coordinates.\<close>

definition no_geocoder :: "string \<Rightarrow> string \<Rightarrow> real option \<times> real option" where
  "no_geocoder city state = (None, None)"

definition cached_seattle :: "string \<Rightarrow> string \<Rightarrow> real option \<times> real option" where
  "cached_seattle city state = (Some 47.6062, Some (- 122.3321))"

definition tick :: "nat \<Rightarrow> nat" where
  "tick k = k"

definition empty_database :: database where
  "empty_database = \<lparr>rows = [], next_pk = 1\<rparr>"

definition record_at :: "string \<Rightarrow> real option option \<Rightarrow> real option option \<Rightarrow> pet_data" where
  "record_at url lat lon =
     \<lparr>pd_name = ''Rex'', pd_primary_breed = ''Beagle'', pd_profile_url = url,
      pd_latitude = lat, pd_longitude = lon\<rparr>"

text \<open>A batch in which one profile URL occurs twice.\<close>

definition sample_batch :: "pet_data list" where
  "sample_batch = [record_at ''a'' None None, record_at ''b'' None None, record_at ''a'' None None]"

text \<open>Two servers: one answers every request with the JSON number 5, the other with the
  JSON list \<open>["result"]\<close>.\<close>

definition http_number :: "string \<Rightarrow> http_result" where
  "http_number url = Body (JInt 5)"

definition http_list :: "string \<Rightarrow> http_result" where
  "http_list url = Body (JArr [JStr ''result''])"

text \<open>A search service for Seattle dogs with three pages. A page is a JSON object with the
  raw records under \<open>result.animals\<close> and the page count under
  \<open>result.pagination.total_pages\<close>; a raw record carries its profile URL under \<open>url\<close>
  and \<open>sample_extract\<close> normalises it. Three servers: one fails on page 2 only, one
  answers every request, one fails on page 1 only.\<close>

definition sample_page :: "string list \<Rightarrow> json" where
  "sample_page urls =
     JObj [(''result'',
            JObj [(''animals'', JArr (map (\<lambda>u. JObj [(''url'', JStr u)]) urls)),
                  (''pagination'', JObj [(''total_pages'', JInt 3)])])]"

definition sample_extract :: "json \<Rightarrow> py_error + pet_data" where
  "sample_extract raw =
     (case json_get raw ''url'' JNull of
        Inr (JStr u) \<Rightarrow> Inr (record_at u None None)
      | _ \<Rightarrow> Inl AttributeError)"

definition http_page2_down :: "string \<Rightarrow> http_result" where
  "http_page2_down url =
     (if url = search_url ''Seattle'' ''WA'' ''dog'' (Some 50) 1 then Body (sample_page [''a''])
      else if url = search_url ''Seattle'' ''WA'' ''dog'' (Some 50) 3 then Body (sample_page [''c''])
      else RequestFailed)"

definition http_up :: "string \<Rightarrow> http_result" where
  "http_up url = Body (sample_page [''a''])"

definition http_page1_down :: "string \<Rightarrow> http_result" where
  "http_page1_down url =
     (if url = search_url ''Seattle'' ''WA'' ''dog'' (Some 50) 1 then RequestFailed
      else Body (sample_page [''b'']))"

definition sample_world :: "(string \<Rightarrow> http_result) \<Rightarrow> world" where
  "sample_world session_get =
     \<lparr>http = session_get, extract_pet_data = sample_extract,
      get_coordinates_cached = no_geocoder, clock = tick\<rparr>"

text \<open>Stored rows. In \<open>relisted_pets\<close> two rows share the profile URL \<open>u\<close> and a
  third, created later under another URL, has their name and breed. In
  \<open>duplicated_pets\<close> the third row is another animal.\<close>

definition stored_pet :: "nat \<Rightarrow> string \<Rightarrow> string \<Rightarrow> string \<Rightarrow> nat \<Rightarrow> pet" where
  "stored_pet k n u b t =
     \<lparr>pk = k, name = n, profile_url = Some u, primary_breed = Some b,
      latitude = None, longitude = None, created_at = t\<rparr>"

definition relisted_pets :: "pet list" where
  "relisted_pets =
     [stored_pet 1 ''Rex'' ''u'' ''Beagle'' 1,
      stored_pet 2 ''Rex'' ''u'' ''Beagle'' 2,
      stored_pet 3 ''Rex'' ''v'' ''Beagle'' 3]"

definition duplicated_pets :: "pet list" where
  "duplicated_pets =
     [stored_pet 1 ''Rex'' ''u'' ''Beagle'' 1,
      stored_pet 2 ''Rex'' ''u'' ''Beagle'' 2,
      stored_pet 3 ''Bella'' ''v'' ''Poodle'' 3]"

section \<open>Properties of the distance calculator\<close>

lemma radians_diff: "radians (x - y) = radians x - radians y"
  unfolding radians_def by (rule left_diff_distrib)

lemma radians_swap: "radians (x - y) = - radians (y - x)"
  by (simp add: radians_diff)

lemma half_plus_range:
  fixes X :: real
  shows "\<bar>X\<bar> \<le> 1 \<Longrightarrow> 0 \<le> 1 / 2 + X / 2 \<and> 1 / 2 + X / 2 \<le> 1"
  by (auto simp: abs_le_iff)

lemma abs_sum_le_one:
  fixes A B s :: real
  shows "\<bar>A\<bar> \<le> 1 - s \<Longrightarrow> \<bar>B\<bar> \<le> s \<Longrightarrow> \<bar>A + B\<bar> \<le> 1"
  by linarith

lemma haversine_a_range:
  "0 \<le> haversine_a p l q m \<and> haversine_a p l q m \<le> 1"
proof -
  define P where "P = radians p"
  define Q where "Q = radians q"
  define s where "s = (sin (radians (m - l) / 2))\<^sup>2"
  have dl: "radians (q - p) = Q - P"
    by (simp add: radians_diff P_def Q_def)
  have a_eq: "haversine_a p l q m = (sin ((Q - P) / 2))\<^sup>2 + cos P * cos Q * s"
    by (simp add: haversine_a_def Let_def dl P_def Q_def s_def)
  have s0: "0 \<le> s" and s1: "s \<le> 1"
    by (simp_all add: s_def abs_square_le_1)
  have twice: "2 * ((Q - P) / 2) = Q - P"
    by simp
  have "cos (Q - P) = 1 - 2 * (sin ((Q - P) / 2))\<^sup>2"
    using cos_double_sin [of "(Q - P) / 2"] unfolding twice .
  then have half: "(sin ((Q - P) / 2))\<^sup>2 = (1 - cos (Q - P)) / 2"
    by (simp add: field_simps)
  have prod: "cos P * cos Q = (cos (Q - P) + cos (P + Q)) / 2"
    by (simp add: cos_add cos_diff)
  have form: "haversine_a p l q m = 1 / 2 + ((s - 1) * cos (Q - P) + s * cos (P + Q)) / 2"
    by (simp add: a_eq half prod field_simps)
  have c1: "\<bar>cos (Q - P)\<bar> \<le> 1" and c2: "\<bar>cos (P + Q)\<bar> \<le> 1"
    by (rule abs_cos_le_one)+
  have t1: "\<bar>(s - 1) * cos (Q - P)\<bar> \<le> 1 - s"
  proof -
    have "\<bar>(s - 1) * cos (Q - P)\<bar> = (1 - s) * \<bar>cos (Q - P)\<bar>"
      using s1 by (simp add: abs_mult)
    also have "\<dots> \<le> (1 - s) * 1"
      using s1 c1 by (intro mult_left_mono) simp_all
    finally show ?thesis by simp
  qed
  have t2: "\<bar>s * cos (P + Q)\<bar> \<le> s"
  proof -
    have "\<bar>s * cos (P + Q)\<bar> = s * \<bar>cos (P + Q)\<bar>"
      using s0 by (simp add: abs_mult)
    also have "\<dots> \<le> s * 1"
      using s0 c2 by (intro mult_left_mono) simp_all
    finally show ?thesis by simp
  qed
  have "\<bar>(s - 1) * cos (Q - P) + s * cos (P + Q)\<bar> \<le> 1"
    using t1 t2 by (rule abs_sum_le_one)
  then show ?thesis
    unfolding form by (rule half_plus_range)
qed

lemma haversine_a_same: "haversine_a p l p l = 0"
  by (simp add: haversine_a_def radians_def)

lemma haversine_same: "haversine p l p l = 0"
  by (simp add: haversine_def haversine_a_same atan2_def)

lemma haversine_a_sym: "haversine_a p l q m = haversine_a q m p l"
proof -
  have 1: "radians (p - q) = - radians (q - p)" and 2: "radians (l - m) = - radians (m - l)"
    by (rule radians_swap)+
  show ?thesis
    by (simp add: haversine_a_def Let_def 1 2 mult.commute)
qed

lemma haversine_sym: "haversine p l q m = haversine q m p l"
  by (simp add: haversine_def haversine_a_sym [of p l q m])


section \<open>The upsert step and the loop over a batch\<close>

subsection \<open>Stripping is idempotent\<close>


lemma dropWhile_id_hd: "xs = [] \<or> \<not> P (hd xs) \<Longrightarrow> dropWhile P xs = xs"
  by (cases xs) auto

lemma dropWhile_rev_dropWhile:
  "dropWhile P (rev (dropWhile P (rev (dropWhile P s)))) = rev (dropWhile P (rev (dropWhile P s)))"
proof -
  let ?t = "dropWhile P s"
  let ?u = "rev (dropWhile P (rev ?t))"
  have split: "?t = ?u @ rev (takeWhile P (rev ?t))"
    by (metis rev_append rev_rev_ident takeWhile_dropWhile_id)
  show ?thesis
  proof (cases "?u = []")
    case True
    show ?thesis by (simp only: True dropWhile.simps)
  next
    case False
    then have "hd ?u = hd ?t"
      using split by (metis hd_append2)
    moreover have "?t \<noteq> []"
      using False split by (metis append_is_Nil_conv)
    then have "\<not> P (hd ?t)"
      by (rule hd_dropWhile)
    ultimately show ?thesis
      by (intro dropWhile_id_hd) simp
  qed
qed

lemma strip_strip: "strip (strip s) = strip s"
  by (simp add: strip_def dropWhile_rev_dropWhile)

text \<open>\<open>extract_pet_data\<close> stores \<open>social_sharing['email_url'].strip()\<close> or the empty
  string as profile URL (lines 178-181); either way the record is normalised.\<close>

lemma normalized_extracted:
  "pd_profile_url d = strip s \<or> pd_profile_url d = [] \<Longrightarrow> normalized d"
  by (auto simp: normalized_def strip_strip) (simp add: strip_def)


subsection \<open>One record\<close>


lemma set_order_by_created_desc [simp]: "set (order_by_created_desc ps) = set ps"
  by (simp add: order_by_created_desc_def)

lemma first_eq_None [simp]: "first ps = None \<longleftrightarrow> ps = []"
proof -
  have "order_by_created_desc ps = [] \<longleftrightarrow> ps = []"
    by (metis set_order_by_created_desc set_empty)
  then show ?thesis
    by (cases "order_by_created_desc ps") (simp_all add: first_def)
qed

lemma first_SomeD: "first ps = Some p \<Longrightarrow> p \<in> set ps"
proof -
  assume "first ps = Some p"
  then obtain qs where "order_by_created_desc ps = p # qs"
    by (cases "order_by_created_desc ps") (simp_all add: first_def)
  then have "p \<in> set (order_by_created_desc ps)"
    by simp
  then show ?thesis
    by (simp only: set_order_by_created_desc)
qed

lemma count_profile_url_eq:
  "count_profile_url u ps = count_list (map profile_url ps) (Some u)"
  by (induction ps) (auto simp: count_profile_url_def)

lemma map_profile_url_save_row:
  assumes "distinct (map pk ps)" "p \<in> set ps" "profile_url p' = profile_url p" "pk p' = pk p"
  shows "map profile_url (map (\<lambda>q. if pk q = pk p' then p' else q) ps) = map profile_url ps"
proof -
  have "\<And>q. q \<in> set ps \<Longrightarrow> pk q = pk p \<Longrightarrow> q = p"
    using assms(1,2) by (meson distinct_map inj_onD)
  then show ?thesis
    using assms(3,4) by (auto simp: map_eq_conv)
qed

lemma map_pk_save_row:
  "pk p' = pk p \<Longrightarrow> map pk (map (\<lambda>q. if pk q = pk p' then p' else q) ps) = map pk ps"
  by (induction ps) auto

lemma upsert_update:
  assumes "strip (pd_profile_url d) \<noteq> []"
    and "first (filter (\<lambda>p. profile_url p = Some (strip (pd_profile_url d))) (rows (db st))) = Some p"
  shows "upsert now d st =
           st\<lparr>db := save_row (set_attrs p d) (db st), updated_count := updated_count st + 1\<rparr>"
  using assms by (simp add: upsert_def Let_def)

lemma upsert_create:
  assumes "strip (pd_profile_url d) = [] \<or>
           filter (\<lambda>p. profile_url p = Some (strip (pd_profile_url d))) (rows (db st)) = []"
  shows "upsert now d st =
           st\<lparr>db := objects_create now d (db st), saved_count := saved_count st + 1\<rparr>"
proof -
  have "(if strip (pd_profile_url d) \<noteq> []
         then first (filter (\<lambda>p. profile_url p = Some (strip (pd_profile_url d))) (rows (db st)))
         else None) = None"
    using assms by auto
  then show ?thesis
    by (simp add: upsert_def Let_def)
qed

lemma rows_save_row_set_attrs:
  "rows (save_row (set_attrs p d) dbs) =
     map (\<lambda>q. if pk q = pk (set_attrs p d) then set_attrs p d else q) (rows dbs)"
  by (simp add: save_row_def)

lemma pk_set_attrs [simp]: "pk (set_attrs p d) = pk p"
  by (simp add: set_attrs_def)

lemma profile_url_set_attrs [simp]: "profile_url (set_attrs p d) = Some (pd_profile_url d)"
  by (simp add: set_attrs_def)

lemma next_pk_save_row [simp]: "next_pk (save_row p dbs) = next_pk dbs"
  by (simp add: save_row_def)

lemma upsert_cases:
  assumes "wf_database (db st)" "normalized d"
  obtains (update) p where
      "pd_profile_url d \<noteq> []" "p \<in> set (rows (db st))" "profile_url p = Some (pd_profile_url d)"
      "upsert now d st =
         st\<lparr>db := save_row (set_attrs p d) (db st), updated_count := updated_count st + 1\<rparr>"
      "map profile_url (rows (db (upsert now d st))) = map profile_url (rows (db st))"
      "map pk (rows (db (upsert now d st))) = map pk (rows (db st))"
      "next_pk (db (upsert now d st)) = next_pk (db st)"
  | (create)
      "pd_profile_url d = [] \<or> Some (pd_profile_url d) \<notin> set (map profile_url (rows (db st)))"
      "upsert now d st =
         st\<lparr>db := objects_create now d (db st), saved_count := saved_count st + 1\<rparr>"
proof -
  let ?u = "pd_profile_url d"
  let ?m = "filter (\<lambda>p. profile_url p = Some ?u) (rows (db st))"
  have su: "strip ?u = ?u" using assms(2) by (simp add: normalized_def)
  have mem: "Some ?u \<in> set (map profile_url (rows (db st))) \<longleftrightarrow> ?m \<noteq> []"
    by (force simp: filter_empty_conv)
  show thesis
  proof (cases "?u \<noteq> [] \<and> ?m \<noteq> []")
    case True
    then obtain p where p: "first ?m = Some p"
      by (cases "first ?m") auto
    have pin: "p \<in> set (rows (db st))" and pu: "profile_url p = Some ?u"
      using first_SomeD [OF p] by auto
    have up: "upsert now d st =
         st\<lparr>db := save_row (set_attrs p d) (db st), updated_count := updated_count st + 1\<rparr>"
      using True p by (intro upsert_update) (simp_all add: su)
    have dist: "distinct (map pk (rows (db st)))"
      using assms(1) by (simp add: wf_database_def)
    have 1: "map profile_url (rows (db (upsert now d st))) = map profile_url (rows (db st))"
      unfolding up using map_profile_url_save_row [OF dist pin, of "set_attrs p d"] pu
      by (simp add: rows_save_row_set_attrs)
    have 2: "map pk (rows (db (upsert now d st))) = map pk (rows (db st))"
      unfolding up using map_pk_save_row [of "set_attrs p d" p "rows (db st)"]
      by (simp add: rows_save_row_set_attrs)
    have 3: "next_pk (db (upsert now d st)) = next_pk (db st)"
      unfolding up by simp
    from True pin pu up 1 2 3 show ?thesis
      by (intro update [of p]) simp_all
  next
    case False
    then have "strip ?u = [] \<or> filter (\<lambda>p. profile_url p = Some (strip ?u)) (rows (db st)) = []"
      by (auto simp: su)
    then have "upsert now d st =
         st\<lparr>db := objects_create now d (db st), saved_count := saved_count st + 1\<rparr>"
      by (rule upsert_create)
    with False mem show ?thesis
      by (intro create) auto
  qed
qed

lemma upsert_urls:
  assumes "wf_database (db st)" "normalized d"
  shows "map profile_url (rows (db (upsert now d st))) =
           map profile_url (rows (db st)) @
             (if pd_profile_url d = [] \<or> Some (pd_profile_url d) \<notin> set (map profile_url (rows (db st)))
              then [Some (pd_profile_url d)] else [])"
  using assms
proof (cases rule: upsert_cases [where now = now])
  case (update p)
  then show ?thesis by force
next
  case create
  then show ?thesis by (auto simp: objects_create_def)
qed


lemma upsert_wf:
  assumes "wf_database (db st)" "normalized d"
  shows "wf_database (db (upsert now d st))"
  using assms
proof (cases rule: upsert_cases [where now = now])
  case (update p)
  have "map pk (rows (db (upsert now d st))) = map pk (rows (db st))" by (rule update(6))
  moreover have "next_pk (db (upsert now d st)) = next_pk (db st)" by (rule update(7))
  ultimately show ?thesis
    using assms(1) by (simp add: wf_database_def)
next
  case create
  then show ?thesis
    using assms(1) by (auto simp: objects_create_def wf_database_def list_all_iff intro: less_SucI)
qed

lemma save_pet_filtered:
  "distance_filtered slat slon m d \<Longrightarrow>
   save_pet now slat slon m d st = st\<lparr>filtered_count := filtered_count st + 1\<rparr>"
  by (simp add: save_pet_def)

lemma save_pet_retained:
  "\<not> distance_filtered slat slon m d \<Longrightarrow> save_pet now slat slon m d st = upsert now d st"
  by (simp add: save_pet_def)

lemma save_pet_wf:
  "wf_database (db st) \<Longrightarrow> normalized d \<Longrightarrow> wf_database (db (save_pet now slat slon m d st))"
  by (cases "distance_filtered slat slon m d")
     (simp_all add: save_pet_filtered save_pet_retained upsert_wf)

lemma save_pet_urls:
  assumes "wf_database (db st)" "normalized d"
  shows "profile_urls (save_pet now slat slon m d st) =
           profile_urls st @
             (if \<not> distance_filtered slat slon m d \<and>
                 (pd_profile_url d = [] \<or> Some (pd_profile_url d) \<notin> set (profile_urls st))
              then [Some (pd_profile_url d)] else [])"
  using upsert_urls [OF assms, of now]
  by (cases "distance_filtered slat slon m d")
     (simp_all add: save_pet_filtered save_pet_retained profile_urls_def)



lemma unique_profile_urls_alt:
  "unique_profile_urls (rows (db st)) = distinct (nonempty_urls (profile_urls st))"
  by (simp add: unique_profile_urls_def nonempty_urls_def profile_urls_def)

lemma save_pet_unique:
  assumes "wf_database (db st)" "normalized d" "distinct (nonempty_urls (profile_urls st))"
  shows "distinct (nonempty_urls (profile_urls (save_pet now slat slon m d st)))"
  using assms(3) unfolding save_pet_urls [OF assms(1,2)]
  by (auto simp: nonempty_urls_def)

lemma fold_save_pet_unique:
  "wf_database (db st) \<Longrightarrow> list_all normalized ds \<Longrightarrow>
   distinct (nonempty_urls (profile_urls st)) \<Longrightarrow>
   distinct (nonempty_urls (profile_urls (fold (save_pet now slat slon m) ds st)))"
proof (induction ds arbitrary: st)
  case Nil
  then show ?case by simp
next
  case (Cons d ds)
  then show ?case
    by (simp add: save_pet_wf save_pet_unique)
qed








section \<open>Uniqueness of profile URLs and idempotence of the upsert\<close>

lemma save_pets_to_database_loop:
  "save_pets_to_database g now ds city state m d0 =
     (let st = fold (save_pet now (fst (search_origin g city state m)) (snd (search_origin g city state m)) m) ds
                 \<lparr>db = d0, saved_count = 0, updated_count = 0, filtered_count = 0\<rparr>
      in (saved_count st, db st))"
  by (simp add: save_pets_to_database_def save_loop_def Let_def)

text \<open>
  C3 (as amended). From a well-formed table in which at most one row has any given
  non-empty profile URL, \<open>save_pets_to_database\<close> applied to any batch of normalised
  records (profile URLs without surrounding whitespace, as \<open>extract_pet_data\<close> produces
  them) leaves a table with the same property.
\<close>

theorem save_preserves_unique_profile_urls:
  assumes "wf_database d0" and "unique_profile_urls (rows d0)" and "list_all normalized pets_data"
  shows "unique_profile_urls
           (rows (snd (save_pets_to_database g now pets_data search_city search_state max_distance d0)))"
proof -
  let ?st0 = "\<lparr>db = d0, saved_count = 0, updated_count = 0, filtered_count = 0\<rparr>"
  have "distinct (nonempty_urls (profile_urls ?st0))"
    using assms(2) by (simp add: unique_profile_urls_def nonempty_urls_def profile_urls_def)
  moreover have "wf_database (db ?st0)"
    using assms(1) by simp
  ultimately show ?thesis
    using assms(3)
    by (simp add: save_pets_to_database_loop Let_def unique_profile_urls_alt fold_save_pet_unique)
qed

theorem save_preserves_unique_profile_urls_witness:
  "wf_database empty_database \<and> unique_profile_urls (rows empty_database)
   \<and> list_all normalized [record_at ''u'' None None, record_at ''u'' None None]
   \<and> unique_profile_urls
        (rows (snd (save_pets_to_database no_geocoder tick
                      [record_at ''u'' None None, record_at ''u'' None None] None None None
                      empty_database)))"
proof -
  have 1: "wf_database empty_database"
    by (simp add: wf_database_def empty_database_def)
  have 2: "unique_profile_urls (rows empty_database)"
    by (simp add: unique_profile_urls_def empty_database_def)
  have 3: "list_all normalized [record_at ''u'' None None, record_at ''u'' None None]"
    by (simp add: normalized_def record_at_def strip_def isspace_def)
  show ?thesis
    using 1 2 3 save_preserves_unique_profile_urls [OF 1 2 3] by simp
qed

text \<open>
  The claim as stated, for any batch, fails: the lookup uses the stripped URL and the row
  stores the unstripped one, so a record whose URL starts with a blank never finds the row
  it created and is inserted again.
\<close>

lemma strip_blank_u: "strip '' u'' = ''u''"
  by (simp add: strip_def isspace_def)

theorem unstripped_profile_url_duplicated:
  "wf_database empty_database \<and> unique_profile_urls (rows empty_database)
   \<and> \<not> unique_profile_urls
        (rows (snd (save_pets_to_database no_geocoder tick
                      [record_at '' u'' None None, record_at '' u'' None None] None None None
                      empty_database)))"
  by (simp add: save_pets_to_database_def save_loop_def search_origin_def save_pet_def
        distance_filtered_def truthy_float_def truthy_int_def upsert_def Let_def strip_blank_u
        record_at_def empty_database_def objects_create_def unique_profile_urls_def
        wf_database_def first_def order_by_created_desc_def)




lemmas save_eval =
  save_pets_to_database_def save_loop_def search_origin_def save_pet_def
  distance_filtered_def truthy_float_def truthy_int_def upsert_def Let_def
  record_at_def empty_database_def objects_create_def first_def order_by_created_desc_def
  save_row_def set_attrs_def dict_get_def no_geocoder_def tick_def

lemma strip_a: "strip ''a'' = ''a''" and strip_b: "strip ''b'' = ''b''"
  by (simp_all add: strip_def isspace_def)

lemma sample_first_run:
  "save_pets_to_database no_geocoder tick sample_batch None None None empty_database =
     (2, \<lparr>rows = [\<lparr>pk = 1, name = ''Rex'', profile_url = Some ''a'', primary_breed = Some ''Beagle'',
                    latitude = None, longitude = None, created_at = 1\<rparr>,
                  \<lparr>pk = 2, name = ''Rex'', profile_url = Some ''b'', primary_breed = Some ''Beagle'',
                    latitude = None, longitude = None, created_at = 2\<rparr>],
         next_pk = 3\<rparr>)"
  by (simp add: save_eval sample_batch_def strip_a strip_b)



section \<open>Zero coordinates and the distance filter\<close>


lemma calculate_distance_truthy:
  "a \<noteq> 0 \<Longrightarrow> b \<noteq> 0 \<Longrightarrow> c \<noteq> 0 \<Longrightarrow> d \<noteq> 0 \<Longrightarrow>
   calculate_distance (temp_pet (Some a) (Some b)) (Some c) (Some d) = Some (haversine a b c d)"
  by (simp add: calculate_distance_def truthy_float_def temp_pet_def)

lemma calculate_distance_same_point:
  "a \<noteq> 0 \<Longrightarrow> b \<noteq> 0 \<Longrightarrow>
   calculate_distance (temp_pet (Some a) (Some b)) (Some a) (Some b) = Some 0"
  by (simp add: calculate_distance_truthy haversine_same)

lemma calculate_distance_symmetric:
  "calculate_distance (temp_pet a b) c d = calculate_distance (temp_pet c d) a b"
  by (cases a; cases b; cases c; cases d)
     (auto simp: calculate_distance_def truthy_float_def temp_pet_def haversine_sym)

text \<open>
  C9. The claim: the distance from any coordinate pair to itself is 0, and the distance is
  symmetric. Symmetry holds (\<open>calculate_distance_symmetric\<close>), and so does the first part
  when both coordinates are non-zero (\<open>calculate_distance_same_point\<close>). For a point on
  the equator, latitude 0 and longitude -122.3321, the method returns \<open>None\<close>, not 0.
\<close>

theorem calculate_distance_same_point_on_equator:
  "calculate_distance (temp_pet (Some 0) (Some (- 122.3321))) (Some 0) (Some (- 122.3321)) = None"
  by (simp add: calculate_distance_def truthy_float_def temp_pet_def)




text \<open>What the distance filter decides when no coordinate and no bound is zero, and for a
  record without coordinates.\<close>

lemma distance_filtered_iff:
  assumes "a \<noteq> 0" "b \<noteq> 0" "m \<noteq> 0" "x \<noteq> 0" "y \<noteq> 0"
    and "dict_get (pd_latitude d) = Some x" "dict_get (pd_longitude d) = Some y"
  shows "\<not> distance_filtered (Some a) (Some b) (Some m) d \<longleftrightarrow> haversine x y a b \<le> real_of_int m"
  using assms
  by (simp add: distance_filtered_def truthy_float_def truthy_int_def Let_def
        calculate_distance_truthy not_less)

lemma distance_filtered_missing_coordinate:
  "dict_get (pd_latitude d) = None \<or> dict_get (pd_longitude d) = None \<Longrightarrow>
   \<not> distance_filtered search_lat search_lon max_distance d"
  by (auto simp: distance_filtered_def truthy_float_def Let_def)

text \<open>Along a meridian the distance is the radius times the difference of latitude in
  radians; from Seattle (latitude 47.6062, longitude -122.3321 in the table of
  geocoding.py) to the equator it is more than 50 miles.\<close>

lemma atan2_sin_cos:
  assumes "0 \<le> x" "x \<le> pi / 2"
  shows "atan2 (sin x) (cos x) = x"
proof (cases "x = pi / 2")
  case True
  show ?thesis
    unfolding True by (simp add: atan2_def)
next
  case False
  then have lt: "x < pi / 2" using assms(2) by simp
  have gt: "- (pi / 2) < x" using assms(1) pi_gt_zero by linarith
  have "0 < cos x"
    using gt lt by (rule cos_gt_zero_pi)
  moreover have "arctan (sin x / cos x) = x"
    using arctan_tan [OF gt lt] by (simp add: tan_def)
  ultimately show ?thesis
    by (simp add: atan2_def)
qed

lemma radians_mono: "a \<le> b \<Longrightarrow> radians a \<le> radians b"
  unfolding radians_def using pi_gt_zero by (intro mult_right_mono) simp_all

lemma radians_180: "radians 180 = pi"
  by (simp add: radians_def)

lemma radians_0: "radians 0 = 0"
  by (simp add: radians_def)

lemma haversine_same_longitude:
  assumes "0 \<le> q - p" "q - p \<le> 180"
  shows "haversine p l q l = 3959 * radians (q - p)"
proof -
  define x where "x = radians (q - p) / 2"
  have "radians 0 \<le> radians (q - p)" "radians (q - p) \<le> radians 180"
    using assms by (intro radians_mono; simp)+
  then have x0: "0 \<le> x" and x1: "x \<le> pi / 2"
    by (simp_all add: x_def radians_0 radians_180)
  have "radians (l - l) / 2 = 0"
    by (simp add: radians_0)
  then have a: "haversine_a p l q l = (sin x)\<^sup>2"
    unfolding haversine_a_def Let_def x_def by simp
  have s0: "0 \<le> sin x"
    using x0 x1 pi_gt_zero by (intro sin_ge_zero) linarith+
  have c0: "0 \<le> cos x"
    using x0 x1 pi_gt_zero by (intro cos_ge_zero) linarith+
  have "1 - (sin x)\<^sup>2 = (cos x)\<^sup>2"
    by (simp add: cos_squared_eq)
  then have "sqrt (1 - (sin x)\<^sup>2) = cos x"
    using c0 by simp
  moreover have "sqrt ((sin x)\<^sup>2) = sin x"
    using s0 by simp
  ultimately have "atan2 (sqrt (haversine_a p l q l)) (sqrt (1 - haversine_a p l q l)) = x"
    using atan2_sin_cos [OF x0 x1] by (simp add: a)
  then show ?thesis
    by (simp add: haversine_def Let_def x_def)
qed

lemma radians_far:
  assumes "2 \<le> d"
  shows "50 < 3959 * radians d"
proof -
  have "radians 2 \<le> radians d"
    using assms by (rule radians_mono)
  moreover have "(2::real) * (2 / 180) \<le> radians 2"
    unfolding radians_def using pi_ge_two by (intro mult_left_mono) simp_all
  ultimately have "(2::real) * (2 / 180) \<le> radians d"
    by linarith
  then show ?thesis by simp
qed

lemma haversine_equator_seattle:
  "50 < haversine 0 (- 122.3321) 47.6062 (- 122.3321)"
proof -
  have "haversine 0 (- 122.3321) 47.6062 (- 122.3321) = 3959 * radians (47.6062 - 0)"
    by (rule haversine_same_longitude) simp_all
  moreover have "50 < 3959 * radians (47.6062 - 0)"
    by (rule radians_far) simp
  ultimately show ?thesis by simp
qed

text \<open>
  C1. The claim: with a resolved origin and a maximum distance, a record that has its own
  coordinates is kept exactly when its distance is at most the maximum. The origin is
  Seattle, the maximum 50 miles; the record lies on the equator at the longitude of
  Seattle, more than 50 miles away. It is not filtered, and the call saves it, while the
  same record one degree north of the equator is filtered.
\<close>

theorem record_on_equator_not_filtered:
  "50 < haversine 0 (- 122.3321) 47.6062 (- 122.3321)
   \<and> distance_filtered (Some 47.6062) (Some (- 122.3321)) (Some 50) (record_at ''u'' (Some (Some 1)) (Some (Some (- 122.3321))))
   \<and> \<not> distance_filtered (Some 47.6062) (Some (- 122.3321)) (Some 50) (record_at ''u'' (Some (Some 0)) (Some (Some (- 122.3321))))
   \<and> fst (save_pets_to_database cached_seattle tick [record_at ''u'' (Some (Some 0)) (Some (Some (- 122.3321)))]
            (Some ''Seattle'') (Some ''WA'') (Some 50) empty_database) = 1"
proof -
  have "50 < haversine 0 (- 122.3321) 47.6062 (- 122.3321)"
    by (rule haversine_equator_seattle)
  moreover have "distance_filtered (Some 47.6062) (Some (- 122.3321)) (Some 50)
                   (record_at ''u'' (Some (Some 1)) (Some (Some (- 122.3321))))"
  proof -
    have "haversine 1 (- 122.3321) 47.6062 (- 122.3321) = 3959 * radians (47.6062 - 1)"
      by (rule haversine_same_longitude) simp_all
    moreover have "50 < 3959 * radians (47.6062 - 1)"
      by (rule radians_far) simp
    ultimately have "50 < haversine 1 (- 122.3321) 47.6062 (- 122.3321)"
      by simp
    moreover have "dict_get (pd_latitude (record_at ''u'' (Some (Some 1)) (Some (Some (- 122.3321))))) = Some 1"
      and "dict_get (pd_longitude (record_at ''u'' (Some (Some 1)) (Some (Some (- 122.3321))))) = Some (- 122.3321)"
      by (simp_all add: record_at_def dict_get_def)
    ultimately show ?thesis
      using distance_filtered_iff [of "47.6062" "- 122.3321" 50 1 "- 122.3321"
              "record_at ''u'' (Some (Some 1)) (Some (Some (- 122.3321)))"]
      by simp
  qed
  moreover have nf: "\<not> distance_filtered (Some 47.6062) (Some (- 122.3321)) (Some 50) (record_at ''u'' (Some (Some 0)) (Some (Some (- 122.3321))))"
    by (simp add: distance_filtered_def truthy_float_def truthy_int_def Let_def record_at_def dict_get_def)
  moreover have "strip ''u'' = ''u''"
    by (simp add: strip_def isspace_def)
  then have "fst (save_pets_to_database cached_seattle tick [record_at ''u'' (Some (Some 0)) (Some (Some (- 122.3321)))]
            (Some ''Seattle'') (Some ''WA'') (Some 50) empty_database) = 1"
    using nf
    by (simp add: save_pets_to_database_def save_loop_def search_origin_def cached_seattle_def
          truthy_int_def save_pet_def upsert_def Let_def first_def order_by_created_desc_def
          empty_database_def record_at_def)
  ultimately show ?thesis by simp
qed


section \<open>The search URL and the page fetcher\<close>




lemma int_of_str_50: "int_of_str '' 50'' = Inr 50"
  by (simp add: int_of_str_def strip_def isspace_def isdigit_def Let_def digits_value_def)

lemma int_of_str_empty: "int_of_str '''' = Inl ValueError"
  by (simp add: int_of_str_def strip_def isspace_def isdigit_def Let_def)

lemma int_of_str_m5: "int_of_str ''-5'' = Inr (- 5)"
  by (simp add: int_of_str_def strip_def isspace_def isdigit_def Let_def digits_value_def)




text \<open>What \<open>fetch_page_data\<close> does when the body is a JSON object or the exchange fails:
  the error is \<open>PetFinderAPIError\<close>, and the exception of the transport never leaves.\<close>

lemma fetch_page_data_object:
  "session_get url = Body (JObj items) \<Longrightarrow>
   fetch_page_data session_get url =
     (if ''result'' \<in> set (map fst items) then Inr (JObj items) else Inl PetFinderAPIError)"
  by (simp add: fetch_page_data_def result_in_def)

lemma fetch_page_data_transport:
  "session_get url = RequestFailed \<or> session_get url = NotJson \<Longrightarrow> fetch_page_data session_get url = Inl PetFinderAPIError"
  by (auto simp: fetch_page_data_def)

lemma fetch_page_data_no_transport_exception:
  "fetch_page_data session_get url \<noteq> Inl RequestException \<and> fetch_page_data session_get url \<noteq> Inl ValueError"
  by (auto simp: fetch_page_data_def result_in_def split: http_result.splits json.splits sum.splits)

lemma fetch_page_data_returns_body:
  "fetch_page_data session_get url = Inr data \<Longrightarrow> session_get url = Body data"
  by (auto simp: fetch_page_data_def split: http_result.splits sum.splits if_splits)

text \<open>
  C6. The claim: \<open>fetch_page_data\<close> raises \<open>PetFinderAPIError\<close> exactly when the transport
  fails, the body is not valid JSON or the parsed body lacks the key \<open>result\<close>, and returns
  the body otherwise. For the body \<open>5\<close>, valid JSON without that key, the test of line 120
  raises \<open>TypeError\<close>, which no handler catches; the body \<open>["result"]\<close>, a list that has
  no keys, is returned.
\<close>

theorem fetch_page_data_number_body:
  "fetch_page_data http_number ''https://www.petfinder.com/search/?page=1'' = Inl TypeError
   \<and> fetch_page_data http_list ''https://www.petfinder.com/search/?page=1'' = Inr (JArr [JStr ''result''])"
  by (simp add: fetch_page_data_def result_in_def http_number_def http_list_def)


section \<open>Pagination: failed pages and delays\<close>


lemma clamp_distance_py_distance:
  "clamp_distance (py_distance distance) =
     Inr (case distance of None \<Rightarrow> 100 | Some n \<Rightarrow> max 1 (min 500 n))"
  by (cases distance) (auto simp: clamp_distance_def py_distance_def py_int_def)

lemma build_search_url_py_distance:
  "build_search_url city state animal page_num 100 (py_distance distance) =
     Inr (search_url city state animal distance page_num)"
  by (simp add: search_url_def build_search_url_def clamp_distance_py_distance Let_def)

lemma extract_animals_append:
  "extract_animals f animals acc =
     (acc @ fst (extract_animals f animals []), snd (extract_animals f animals []))"
proof (induction animals arbitrary: acc)
  case Nil
  then show ?case by simp
next
  case (Cons a animals)
  show ?case
  proof (cases "f a")
    case (Inl e)
    then show ?thesis by simp
  next
    case (Inr d)
    then show ?thesis
      using Cons.IH [of "acc @ [d]"] Cons.IH [of "[d]"] by simp
  qed
qed

lemma scrape_page_append:
  "scrape_page w city state animal distance first_page_data k (acc, trace) =
     (acc @ page_records w city state animal distance first_page_data k,
      trace @ page_events w city state animal distance first_page_data k)"
  unfolding page_records_def page_events_def scrape_page_def
  by (auto simp: extract_animals_append [of _ _ acc] split: prod.splits sum.splits)

lemma fold_scrape_page:
  "fold (scrape_page w city state animal distance first_page_data) ks (acc, trace) =
     (acc @ concat (map (page_records w city state animal distance first_page_data) ks),
      trace @ concat (map (page_events w city state animal distance first_page_data) ks))"
  by (induction ks arbitrary: acc trace) (simp_all add: scrape_page_append)

lemma scrape_pets_reaches_loop:
  assumes "fetch_page_data (http w) (search_url city state animal distance 1) = Inr first_page_data"
    and "total_pages_of first_page_data = Inr total_pages"
    and "pages_to_scrape max_pages total_pages = Inr n"
  shows "scrape_pets w city state animal max_pages distance d0 =
           (Inr (total_pages,
                 fst (save_pets_to_database (get_coordinates_cached w) (clock w)
                        (concat (map (page_records w city state animal distance first_page_data) [1..n]))
                        (Some city) (Some state) distance d0)),
            snd (save_pets_to_database (get_coordinates_cached w) (clock w)
                        (concat (map (page_records w city state animal distance first_page_data) [1..n]))
                        (Some city) (Some state) distance d0),
            Fetch (search_url city state animal distance 1)
              # concat (map (page_events w city state animal distance first_page_data) [1..n]))"
  using assms
  by (simp add: scrape_pets_def build_search_url_py_distance fold_scrape_page split: prod.splits)

lemma scrape_pets_first_page_fails:
  assumes "fetch_page_data (http w) (search_url city state animal distance 1) = Inl e"
  shows "scrape_pets w city state animal max_pages distance d0 =
           (Inl PetFinderAPIError, d0, [Fetch (search_url city state animal distance 1)])"
  using assms by (simp add: scrape_pets_def build_search_url_py_distance)

text \<open>The events and records of a page after the first.\<close>

lemma page_later_fetch_fails:
  assumes "k \<noteq> 1" and "fetch_page_data (http w) (search_url city state animal distance k) = Inl e"
  shows "page_records w city state animal distance first_page_data k = []"
    and "page_events w city state animal distance first_page_data k =
           [Fetch (search_url city state animal distance k), LogPageError k]"
  using assms
  by (simp_all add: page_records_def page_events_def scrape_page_def get_page_def
        build_search_url_py_distance)

lemma page_later_fetch_succeeds:
  assumes "k \<noteq> 1" and "fetch_page_data (http w) (search_url city state animal distance k) = Inr page_data"
  shows "\<exists>rest. page_events w city state animal distance first_page_data k =
           Fetch (search_url city state animal distance k) # Sleep 2 # rest
           \<and> (rest = [] \<or> rest = [LogPageError k])"
  using assms
  by (auto simp: page_events_def scrape_page_def get_page_def
        build_search_url_py_distance split: sum.splits prod.splits)

lemma page_first_events:
  "page_events w city state animal distance first_page_data 1 = []
   \<or> page_events w city state animal distance first_page_data 1 = [LogPageError 1]"
  by (auto simp: page_events_def scrape_page_def get_page_def split: sum.splits prod.splits)

lemma page_records_eq:
  "page_records w city state animal distance first_page_data k =
     (if k = 1 then records_of w first_page_data
      else (case fetch_page_data (http w) (search_url city state animal distance k) of
              Inl e \<Rightarrow> []
            | Inr page_data \<Rightarrow> records_of w page_data))"
  by (auto simp: page_records_def scrape_page_def get_page_def records_of_def
        build_search_url_py_distance split: sum.splits prod.splits)

lemma concat_page_records:
  "concat (map (page_records w city state animal distance first_page_data) [1..n]) =
     scraped_batch w city state animal distance first_page_data n"
  unfolding scraped_batch_def by (simp add: page_records_eq [abs_def])

lemma filter_page_events:
  "filter (\<lambda>e. \<not> is_log e) (page_events w city state animal distance first_page_data k) =
     (if k = 1 then []
      else Fetch (search_url city state animal distance k)
             # (case fetch_page_data (http w) (search_url city state animal distance k) of
                  Inl e \<Rightarrow> [] | Inr page_data \<Rightarrow> [Sleep 2]))"
  by (auto simp: page_events_def scrape_page_def get_page_def is_log_def
        build_search_url_py_distance split: sum.splits prod.splits)

lemma fetch_in_page_events:
  "k \<noteq> 1 \<Longrightarrow> Fetch (search_url city state animal distance k)
      \<in> set (page_events w city state animal distance first_page_data k)"
  by (auto simp: page_events_def scrape_page_def get_page_def
        build_search_url_py_distance split: sum.splits prod.splits)

lemma upto_from_1: "[1..n] = (if 1 \<le> n then 1 # [2..n] else [])"
  by (simp add: upto_rec1)

lemma requests_and_delays:
  "filter (\<lambda>e. \<not> is_log e)
     (concat (map (page_events w city state animal distance first_page_data) [1..n])) =
   concat (map (\<lambda>k. Fetch (search_url city state animal distance k)
             # (case fetch_page_data (http w) (search_url city state animal distance k) of
                  Inl e \<Rightarrow> [] | Inr page_data \<Rightarrow> [Sleep 2])) [2..n])"
proof -
  have "filter (\<lambda>e. \<not> is_log e)
          (concat (map (page_events w city state animal distance first_page_data) ks)) =
        concat (map (\<lambda>k. Fetch (search_url city state animal distance k)
             # (case fetch_page_data (http w) (search_url city state animal distance k) of
                  Inl e \<Rightarrow> [] | Inr page_data \<Rightarrow> [Sleep 2])) ks)"
    if "1 \<notin> set ks" for ks
    using that by (induction ks) (auto simp: filter_page_events)
  from this [of "[2..n]"] show ?thesis
    by (simp add: upto_from_1 filter_page_events)
qed

text \<open>
  C8 (as amended). In a scrape that gets its first page, the requests and delays are, in
  order: the request for page 1, then for each page k from 2 to the number of pages to
  scrape the request for page k, followed by a delay of 2 exactly when that request
  succeeded. The delay comes after the fetch of a page, not before it: nothing separates
  the requests for pages 1 and 2, and a failed request is followed by no delay.
\<close>

theorem scrape_pets_sleeps_after_fetch:
  assumes "fetch_page_data (http w) (search_url city state animal distance 1) = Inr first_page_data"
    and "total_pages_of first_page_data = Inr total_pages"
    and "pages_to_scrape max_pages total_pages = Inr n"
  shows "filter (\<lambda>e. \<not> is_log e) (snd (snd (scrape_pets w city state animal max_pages distance d0))) =
           Fetch (search_url city state animal distance 1)
           # concat (map (\<lambda>k. Fetch (search_url city state animal distance k)
                               # (case fetch_page_data (http w) (search_url city state animal distance k) of
                                    Inl e \<Rightarrow> [] | Inr page_data \<Rightarrow> [Sleep 2])) [2..n])"
  by (simp add: scrape_pets_reaches_loop [OF assms] requests_and_delays is_log_def [of "Fetch u" for u])

text \<open>
  C7 (as amended). A failure fetching the first page aborts the scrape with
  \<open>PetFinderAPIError\<close>: the table is unchanged and no other page is requested. When the
  first page is fetched, a failure fetching a later page is logged and only that page is
  skipped: every page from 2 to the number of pages to scrape is requested, and the batch
  passed to \<open>save_pets_to_database\<close> holds the records of the first page and of every
  later page whose fetch succeeded.
\<close>

theorem scrape_pets_skips_failed_page:
  "(fetch_page_data (http w) (search_url city state animal distance 1) = Inl e \<longrightarrow>
      scrape_pets w city state animal max_pages distance d0 =
        (Inl PetFinderAPIError, d0, [Fetch (search_url city state animal distance 1)]))
   \<and> (fetch_page_data (http w) (search_url city state animal distance 1) = Inr first_page_data
       \<and> total_pages_of first_page_data = Inr total_pages
       \<and> pages_to_scrape max_pages total_pages = Inr n \<longrightarrow>
      fst (scrape_pets w city state animal max_pages distance d0) =
        Inr (total_pages,
             fst (save_pets_to_database (get_coordinates_cached w) (clock w)
                    (scraped_batch w city state animal distance first_page_data n)
                    (Some city) (Some state) distance d0))
      \<and> fst (snd (scrape_pets w city state animal max_pages distance d0)) =
          snd (save_pets_to_database (get_coordinates_cached w) (clock w)
                 (scraped_batch w city state animal distance first_page_data n)
                 (Some city) (Some state) distance d0)
      \<and> (\<forall>k\<in>{2..n}. Fetch (search_url city state animal distance k)
                        \<in> set (snd (snd (scrape_pets w city state animal max_pages distance d0))))
      \<and> (\<forall>k\<in>{2..n}. \<forall>e'. fetch_page_data (http w) (search_url city state animal distance k) = Inl e'
             \<longrightarrow> LogPageError k \<in> set (snd (snd (scrape_pets w city state animal max_pages distance d0)))))"
proof (intro conjI impI)
  assume "fetch_page_data (http w) (search_url city state animal distance 1) = Inl e"
  then show "scrape_pets w city state animal max_pages distance d0 =
        (Inl PetFinderAPIError, d0, [Fetch (search_url city state animal distance 1)])"
    by (rule scrape_pets_first_page_fails)
next
  assume a: "fetch_page_data (http w) (search_url city state animal distance 1) = Inr first_page_data
       \<and> total_pages_of first_page_data = Inr total_pages
       \<and> pages_to_scrape max_pages total_pages = Inr n"
  note eq = scrape_pets_reaches_loop [of w city state animal distance first_page_data total_pages
                max_pages n d0, unfolded concat_page_records]
  have run: "scrape_pets w city state animal max_pages distance d0 =
           (Inr (total_pages,
                 fst (save_pets_to_database (get_coordinates_cached w) (clock w)
                        (scraped_batch w city state animal distance first_page_data n)
                        (Some city) (Some state) distance d0)),
            snd (save_pets_to_database (get_coordinates_cached w) (clock w)
                        (scraped_batch w city state animal distance first_page_data n)
                        (Some city) (Some state) distance d0),
            Fetch (search_url city state animal distance 1)
              # concat (map (page_events w city state animal distance first_page_data) [1..n]))"
    using a by (intro eq) simp_all
  show "fst (scrape_pets w city state animal max_pages distance d0) =
        Inr (total_pages,
             fst (save_pets_to_database (get_coordinates_cached w) (clock w)
                    (scraped_batch w city state animal distance first_page_data n)
                    (Some city) (Some state) distance d0))"
    by (simp add: run)
  show "fst (snd (scrape_pets w city state animal max_pages distance d0)) =
          snd (save_pets_to_database (get_coordinates_cached w) (clock w)
                 (scraped_batch w city state animal distance first_page_data n)
                 (Some city) (Some state) distance d0)"
    by (simp add: run)
  show "\<forall>k\<in>{2..n}. Fetch (search_url city state animal distance k)
                        \<in> set (snd (snd (scrape_pets w city state animal max_pages distance d0)))"
  proof
    fix k assume k: "k \<in> {2..n}"
    then have "k \<in> set [1..n]" "k \<noteq> 1" by auto
    then show "Fetch (search_url city state animal distance k)
                 \<in> set (snd (snd (scrape_pets w city state animal max_pages distance d0)))"
      using fetch_in_page_events [of k city state animal distance w first_page_data]
      unfolding run by (auto simp del: set_upto)
  qed
  show "\<forall>k\<in>{2..n}. \<forall>e'. fetch_page_data (http w) (search_url city state animal distance k) = Inl e'
             \<longrightarrow> LogPageError k \<in> set (snd (snd (scrape_pets w city state animal max_pages distance d0)))"
  proof (intro ballI allI impI)
    fix k e' assume k: "k \<in> {2..n}"
      and f: "fetch_page_data (http w) (search_url city state animal distance k) = Inl e'"
    from k have "k \<in> set [1..n]" "k \<noteq> 1" by auto
    then have "LogPageError k
        \<in> set (concat (map (page_events w city state animal distance first_page_data) [1..n]))"
      using page_later_fetch_fails(2) [OF _ f, of first_page_data]
      by (auto simp del: set_upto intro!: bexI [of _ k])
    then show "LogPageError k \<in> set (snd (snd (scrape_pets w city state animal max_pages distance d0)))"
      unfolding run by simp
  qed
qed

lemma sample_urls:
  "search_url ''Seattle'' ''WA'' ''dog'' (Some 50) 1 =
     ''https://www.petfinder.com/search/?page=1&limit[]=100&status=adoptable&distance[]=50&type[]=dog&sort[]=nearest&location_slug[]=us%2FWA%2FSeattle&include_transportable=true''"
  "search_url ''Seattle'' ''WA'' ''dog'' (Some 50) 2 =
     ''https://www.petfinder.com/search/?page=2&limit[]=100&status=adoptable&distance[]=50&type[]=dog&sort[]=nearest&location_slug[]=us%2FWA%2FSeattle&include_transportable=true''"
  "search_url ''Seattle'' ''WA'' ''dog'' (Some 50) 3 =
     ''https://www.petfinder.com/search/?page=3&limit[]=100&status=adoptable&distance[]=50&type[]=dog&sort[]=nearest&location_slug[]=us%2FWA%2FSeattle&include_transportable=true''"
  by (simp_all add: search_url_def build_search_url_def clamp_distance_def py_distance_def
        py_int_def BASE_URL_def str_int_def digit_char_def Let_def)

lemma sample_page_facts:
  "result_in (sample_page urls) = Inr True"
  "total_pages_of (sample_page urls) = Inr (JInt 3)"
  "page_animals (sample_page urls) = Inr (map (\<lambda>u. JObj [(''url'', JStr u)]) urls)"
  by (simp_all add: sample_page_def result_in_def total_pages_of_def page_animals_def
        json_get_def py_iter_def)

lemma sample_records:
  "records_of (sample_world session_get) (sample_page [u]) = [record_at u None None]"
  by (simp add: records_of_def sample_page_facts sample_world_def sample_extract_def json_get_def)

lemma sample_fetches:
  "fetch_page_data http_page2_down (search_url ''Seattle'' ''WA'' ''dog'' (Some 50) 1) = Inr (sample_page [''a''])"
  "fetch_page_data http_page2_down (search_url ''Seattle'' ''WA'' ''dog'' (Some 50) 2) = Inl PetFinderAPIError"
  "fetch_page_data http_page2_down (search_url ''Seattle'' ''WA'' ''dog'' (Some 50) 3) = Inr (sample_page [''c''])"
  "fetch_page_data http_up url = Inr (sample_page [''a''])"
  "fetch_page_data http_page1_down (search_url ''Seattle'' ''WA'' ''dog'' (Some 50) 1) = Inl PetFinderAPIError"
  "fetch_page_data http_page1_down (search_url ''Seattle'' ''WA'' ''dog'' (Some 50) 2) = Inr (sample_page [''b''])"
  by (simp_all add: fetch_page_data_def http_page2_down_def http_up_def http_page1_down_def
        sample_page_facts sample_urls)

lemma upto_1_3: "[1..3] = [1, 2, 3]" and upto_2_3: "[2..3] = [2, 3]"
  and upto_1_2: "[1..2] = [1, 2]" and upto_2_2: "[2..2] = [2::int]"
  by (simp_all add: upto_rec1)

lemma scrape_pets_trace:
  assumes "fetch_page_data (http w) (search_url city state animal distance 1) = Inr first_page_data"
    and "total_pages_of first_page_data = Inr total_pages"
    and "pages_to_scrape max_pages total_pages = Inr n"
  shows "snd (snd (scrape_pets w city state animal max_pages distance d0)) =
           Fetch (search_url city state animal distance 1)
             # concat (map (page_events w city state animal distance first_page_data) [1..n])"
  by (simp add: scrape_pets_reaches_loop [OF assms])

lemma sample_world_simps:
  "http (sample_world session_get) = session_get"
  "extract_pet_data (sample_world session_get) = sample_extract"
  "get_coordinates_cached (sample_world session_get) = no_geocoder"
  "clock (sample_world session_get) = tick"
  by (simp_all add: sample_world_def)

lemma sample_page_events:
  "page_events (sample_world http_page2_down) ''Seattle'' ''WA'' ''dog'' (Some 50) (sample_page [''a'']) 1 = []"
  "page_events (sample_world http_page2_down) ''Seattle'' ''WA'' ''dog'' (Some 50) (sample_page [''a'']) 2 =
     [Fetch (search_url ''Seattle'' ''WA'' ''dog'' (Some 50) 2), LogPageError 2]"
  "page_events (sample_world http_page2_down) ''Seattle'' ''WA'' ''dog'' (Some 50) (sample_page [''a'']) 3 =
     [Fetch (search_url ''Seattle'' ''WA'' ''dog'' (Some 50) 3), Sleep 2]"
  "page_events (sample_world http_up) ''Seattle'' ''WA'' ''dog'' (Some 50) (sample_page [''a'']) 1 = []"
  "page_events (sample_world http_up) ''Seattle'' ''WA'' ''dog'' (Some 50) (sample_page [''a'']) 2 =
     [Fetch (search_url ''Seattle'' ''WA'' ''dog'' (Some 50) 2), Sleep 2]"
  by (simp_all add: page_events_def scrape_page_def get_page_def sample_world_simps sample_fetches
        sample_page_facts build_search_url_py_distance sample_extract_def json_get_def)

lemma sample_trace_page2_down:
  "snd (snd (scrape_pets (sample_world http_page2_down) ''Seattle'' ''WA'' ''dog'' 3 (Some 50) empty_database)) =
     [Fetch (search_url ''Seattle'' ''WA'' ''dog'' (Some 50) 1),
      Fetch (search_url ''Seattle'' ''WA'' ''dog'' (Some 50) 2), LogPageError 2,
      Fetch (search_url ''Seattle'' ''WA'' ''dog'' (Some 50) 3), Sleep 2]"
  by (subst scrape_pets_trace [where first_page_data = "sample_page [''a'']"
           and total_pages = "JInt 3" and n = 3])
     (simp_all add: sample_world_simps sample_fetches sample_page_facts pages_to_scrape_def
        upto_1_3 sample_page_events)

lemma sample_trace_up:
  "snd (snd (scrape_pets (sample_world http_up) ''Seattle'' ''WA'' ''dog'' 2 (Some 50) empty_database)) =
     [Fetch (search_url ''Seattle'' ''WA'' ''dog'' (Some 50) 1),
      Fetch (search_url ''Seattle'' ''WA'' ''dog'' (Some 50) 2), Sleep 2]"
  by (subst scrape_pets_trace [where first_page_data = "sample_page [''a'']"
           and total_pages = "JInt 3" and n = 2])
     (simp_all add: sample_world_simps sample_fetches sample_page_facts pages_to_scrape_def
        upto_1_2 sample_page_events)

lemma sample_batch_page2_down:
  "scraped_batch (sample_world http_page2_down) ''Seattle'' ''WA'' ''dog'' (Some 50) (sample_page [''a'']) 3 =
     [record_at ''a'' None None, record_at ''c'' None None]"
  by (simp add: scraped_batch_def upto_1_3 sample_world_simps sample_fetches sample_records)

lemma strip_c: "strip ''c'' = ''c''"
  by (simp add: strip_def isspace_def)

lemma sample_saved_page2_down:
  "fst (save_pets_to_database no_geocoder tick [record_at ''a'' None None, record_at ''c'' None None]
          (Some ''Seattle'') (Some ''WA'') (Some 50) empty_database) = 2"
  by (simp add: save_eval strip_a strip_c)

theorem scrape_pets_skips_failed_page_witness:
  "fetch_page_data (http (sample_world http_page1_down)) (search_url ''Seattle'' ''WA'' ''dog'' (Some 50) 1)
     = Inl PetFinderAPIError
   \<and> scrape_pets (sample_world http_page1_down) ''Seattle'' ''WA'' ''dog'' 3 (Some 50) empty_database =
       (Inl PetFinderAPIError, empty_database, [Fetch (search_url ''Seattle'' ''WA'' ''dog'' (Some 50) 1)])
   \<and> fetch_page_data (http (sample_world http_page2_down)) (search_url ''Seattle'' ''WA'' ''dog'' (Some 50) 1)
       = Inr (sample_page [''a''])
   \<and> total_pages_of (sample_page [''a'']) = Inr (JInt 3)
   \<and> pages_to_scrape 3 (JInt 3) = Inr 3
   \<and> fetch_page_data (http (sample_world http_page2_down)) (search_url ''Seattle'' ''WA'' ''dog'' (Some 50) 2)
       = Inl PetFinderAPIError
   \<and> fst (scrape_pets (sample_world http_page2_down) ''Seattle'' ''WA'' ''dog'' 3 (Some 50) empty_database)
       = Inr (JInt 3, 2)
   \<and> Fetch (search_url ''Seattle'' ''WA'' ''dog'' (Some 50) 2)
       \<in> set (snd (snd (scrape_pets (sample_world http_page2_down) ''Seattle'' ''WA'' ''dog'' 3 (Some 50) empty_database)))
   \<and> Fetch (search_url ''Seattle'' ''WA'' ''dog'' (Some 50) 3)
       \<in> set (snd (snd (scrape_pets (sample_world http_page2_down) ''Seattle'' ''WA'' ''dog'' 3 (Some 50) empty_database)))
   \<and> LogPageError 2
       \<in> set (snd (snd (scrape_pets (sample_world http_page2_down) ''Seattle'' ''WA'' ''dog'' 3 (Some 50) empty_database)))"
proof -
  have h0: "fetch_page_data (http (sample_world http_page1_down)) (search_url ''Seattle'' ''WA'' ''dog'' (Some 50) 1)
     = Inl PetFinderAPIError"
    by (simp add: sample_world_simps sample_fetches)
  have h1: "fetch_page_data (http (sample_world http_page2_down)) (search_url ''Seattle'' ''WA'' ''dog'' (Some 50) 1)
       = Inr (sample_page [''a''])"
    by (simp add: sample_world_simps sample_fetches)
  have h2: "total_pages_of (sample_page [''a'']) = Inr (JInt 3)"
    by (simp add: sample_page_facts)
  have h3: "pages_to_scrape 3 (JInt 3) = Inr 3"
    by (simp add: pages_to_scrape_def)
  have h4: "fetch_page_data (http (sample_world http_page2_down)) (search_url ''Seattle'' ''WA'' ''dog'' (Some 50) 2)
       = Inl PetFinderAPIError"
    by (simp add: sample_world_simps sample_fetches)
  note a = scrape_pets_skips_failed_page
      [of "sample_world http_page1_down" "''Seattle''" "''WA''" "''dog''" "Some 50" PetFinderAPIError
          3 empty_database "sample_page [''a'']" "JInt 3" 3]
  note b = scrape_pets_skips_failed_page
      [of "sample_world http_page2_down" "''Seattle''" "''WA''" "''dog''" "Some 50" PetFinderAPIError
          3 empty_database "sample_page [''a'']" "JInt 3" 3]
  have two: "(2::int) \<in> {2..3}" and three: "(3::int) \<in> {2..3}"
    by simp_all
  from a h0 have A: "scrape_pets (sample_world http_page1_down) ''Seattle'' ''WA'' ''dog'' 3 (Some 50) empty_database =
       (Inl PetFinderAPIError, empty_database, [Fetch (search_url ''Seattle'' ''WA'' ''dog'' (Some 50) 1)])"
    by blast
  from b h1 h2 h3 have
    B1: "fst (scrape_pets (sample_world http_page2_down) ''Seattle'' ''WA'' ''dog'' 3 (Some 50) empty_database) =
        Inr (JInt 3,
             fst (save_pets_to_database (get_coordinates_cached (sample_world http_page2_down))
                    (clock (sample_world http_page2_down))
                    (scraped_batch (sample_world http_page2_down) ''Seattle'' ''WA'' ''dog'' (Some 50) (sample_page [''a'']) 3)
                    (Some ''Seattle'') (Some ''WA'') (Some 50) empty_database))"
    and B3: "\<forall>k\<in>{2..3}. Fetch (search_url ''Seattle'' ''WA'' ''dog'' (Some 50) k)
          \<in> set (snd (snd (scrape_pets (sample_world http_page2_down) ''Seattle'' ''WA'' ''dog'' 3 (Some 50) empty_database)))"
    and B4: "\<forall>k\<in>{2..3}. \<forall>e'. fetch_page_data (http (sample_world http_page2_down)) (search_url ''Seattle'' ''WA'' ''dog'' (Some 50) k) = Inl e'
          \<longrightarrow> LogPageError k \<in> set (snd (snd (scrape_pets (sample_world http_page2_down) ''Seattle'' ''WA'' ''dog'' 3 (Some 50) empty_database)))"
    by blast+
  have C1: "fst (scrape_pets (sample_world http_page2_down) ''Seattle'' ''WA'' ''dog'' 3 (Some 50) empty_database)
       = Inr (JInt 3, 2)"
    using B1 by (simp add: sample_world_simps sample_batch_page2_down sample_saved_page2_down)
  show ?thesis
    using h0 A h1 h2 h3 h4 C1 B3 [rule_format, OF two] B3 [rule_format, OF three]
      B4 [rule_format, OF two h4]
    by simp
qed

text \<open>The claim as stated, for any single page, fails on page 1: the server fails on page 1
  only, pages 2 and 3 would be served, and the scrape ends after the first request with
  nothing saved.\<close>

theorem scrape_pets_first_page_failure_aborts:
  "fetch_page_data http_page1_down (search_url ''Seattle'' ''WA'' ''dog'' (Some 50) 2) = Inr (sample_page [''b''])
   \<and> scrape_pets (sample_world http_page1_down) ''Seattle'' ''WA'' ''dog'' 3 (Some 50) empty_database =
       (Inl PetFinderAPIError, empty_database, [Fetch (search_url ''Seattle'' ''WA'' ''dog'' (Some 50) 1)])"
  by (simp add: sample_fetches scrape_pets_first_page_fails sample_world_simps)

theorem scrape_pets_sleeps_after_fetch_witness:
  "fetch_page_data (http (sample_world http_page2_down)) (search_url ''Seattle'' ''WA'' ''dog'' (Some 50) 1)
       = Inr (sample_page [''a''])
   \<and> total_pages_of (sample_page [''a'']) = Inr (JInt 3)
   \<and> pages_to_scrape 3 (JInt 3) = Inr 3
   \<and> filter (\<lambda>e. \<not> is_log e)
        (snd (snd (scrape_pets (sample_world http_page2_down) ''Seattle'' ''WA'' ''dog'' 3 (Some 50) empty_database)))
      = [Fetch (search_url ''Seattle'' ''WA'' ''dog'' (Some 50) 1),
         Fetch (search_url ''Seattle'' ''WA'' ''dog'' (Some 50) 2),
         Fetch (search_url ''Seattle'' ''WA'' ''dog'' (Some 50) 3), Sleep 2]"
proof -
  have h1: "fetch_page_data (http (sample_world http_page2_down)) (search_url ''Seattle'' ''WA'' ''dog'' (Some 50) 1)
       = Inr (sample_page [''a''])"
    by (simp add: sample_world_simps sample_fetches)
  have h2: "total_pages_of (sample_page [''a'']) = Inr (JInt 3)"
    by (simp add: sample_page_facts)
  have h3: "pages_to_scrape 3 (JInt 3) = Inr 3"
    by (simp add: pages_to_scrape_def)
  show ?thesis
    using h1 h2 h3 scrape_pets_sleeps_after_fetch [OF h1 h2 h3, of empty_database]
    by (simp add: upto_2_3 sample_world_simps sample_fetches)
qed

text \<open>The claim as stated puts the delay before the fetch of every page after the first.
  With a server that answers every request and two pages to scrape, the events are the two
  requests and then the delay: no delay precedes the request for page 2.\<close>

theorem scrape_pets_no_delay_before_second_page:
  "snd (snd (scrape_pets (sample_world http_up) ''Seattle'' ''WA'' ''dog'' 2 (Some 50) empty_database)) =
     [Fetch (search_url ''Seattle'' ''WA'' ''dog'' (Some 50) 1),
      Fetch (search_url ''Seattle'' ''WA'' ''dog'' (Some 50) 2), Sleep 2]
   \<and> events_before (Fetch (search_url ''Seattle'' ''WA'' ''dog'' (Some 50) 2))
        (snd (snd (scrape_pets (sample_world http_up) ''Seattle'' ''WA'' ''dog'' 2 (Some 50) empty_database)))
      = [Fetch (search_url ''Seattle'' ''WA'' ''dog'' (Some 50) 1)]"
  by (simp add: sample_trace_up sample_urls events_before_def)


section \<open>The duplicate sweep\<close>


lemma fold_delete_pet:
  "fold (\<lambda>p s. (delete_pet p (fst s), snd s + 1)) ps (rws, c) =
     (filter (\<lambda>q. pk q \<notin> pk ` set ps) rws, c + length ps)"
proof (induction ps arbitrary: rws c)
  case Nil
  then show ?case by simp
next
  case (Cons p ps)
  have *: "filter (\<lambda>q. pk q \<notin> pk ` set ps) (delete_pet p rws) =
        filter (\<lambda>q. pk q \<notin> pk ` set (p # ps)) rws"
    by (auto simp: delete_pet_def intro: filter_cong)
  let ?F = "\<lambda>p s. (delete_pet p (fst s), snd s + 1)"
  have "fold ?F (p # ps) (rws, c) = fold ?F ps (delete_pet p rws, c + 1)"
    by simp
  also have "\<dots> = (filter (\<lambda>q. pk q \<notin> pk ` set ps) (delete_pet p rws), c + 1 + length ps)"
    by (rule Cons.IH)
  also have "\<dots> = (filter (\<lambda>q. pk q \<notin> pk ` set (p # ps)) rws, c + length (p # ps))"
    using * by simp
  finally show ?case .
qed

lemma pk_eq_iff:
  "distinct (map pk rws) \<Longrightarrow> p \<in> set rws \<Longrightarrow> q \<in> set rws \<Longrightarrow> pk p = pk q \<longleftrightarrow> p = q"
  by (auto simp: distinct_map dest: inj_onD)

lemma distinct_order_by_created_desc:
  "distinct ps \<Longrightarrow> distinct (order_by_created_desc ps)"
  by (simp add: order_by_created_desc_def)

lemma order_by_created_desc_Nil [simp]: "order_by_created_desc ps = [] \<longleftrightarrow> ps = []"
  by (metis set_order_by_created_desc set_empty)

lemma order_by_created_desc_empty [simp]: "order_by_created_desc [] = []"
  by (simp add: order_by_created_desc_def)

lemma set_tl_distinct: "distinct xs \<Longrightarrow> xs \<noteq> [] \<Longrightarrow> set (tl xs) = set xs - {hd xs}"
  by (cases xs) auto

lemma sweep_step:
  assumes "distinct (map pk rws)"
  shows "delete_rest (order_by_created_desc (filter (\<lambda>q. key q = k) rws)) (rws, c) =
           (filter (\<lambda>q. key q = k \<longrightarrow> q = keeper key k rws) rws,
            c + (length (filter (\<lambda>q. key q = k) rws) - 1))"
proof -
  let ?g = "filter (\<lambda>q. key q = k) rws"
  let ?pets = "order_by_created_desc ?g"
  have drows: "distinct rws"
    using assms by (simp add: distinct_map)
  have dpets: "distinct ?pets"
    using drows by (simp add: distinct_order_by_created_desc)
  have len: "length (tl ?pets) = length ?g - 1"
    by (simp add: order_by_created_desc_def)
  have sub: "set (tl ?pets) \<subseteq> set rws"
  proof -
    have "set (tl ?pets) \<subseteq> set ?pets"
      by (cases ?pets) auto
    then show ?thesis by auto
  qed
  have "filter (\<lambda>q. pk q \<notin> pk ` set (tl ?pets)) rws =
        filter (\<lambda>q. key q = k \<longrightarrow> q = keeper key k rws) rws"
  proof (rule filter_cong [OF refl])
    fix q assume q: "q \<in> set rws"
    have "pk q \<in> pk ` set (tl ?pets) \<longleftrightarrow> q \<in> set (tl ?pets)"
    proof
      assume "pk q \<in> pk ` set (tl ?pets)"
      then obtain x where x: "x \<in> set (tl ?pets)" "pk q = pk x"
        by auto
      then have xin: "x \<in> set rws"
        using sub by auto
      have "q = x"
        using pk_eq_iff [OF assms q xin] x(2) by simp
      then show "q \<in> set (tl ?pets)"
        using x(1) by simp
    next
      assume "q \<in> set (tl ?pets)"
      then show "pk q \<in> pk ` set (tl ?pets)"
        by (rule imageI)
    qed
    also have "\<dots> \<longleftrightarrow> key q = k \<and> q \<noteq> keeper key k rws"
    proof (cases "?g = []")
      case True
      then have "?pets = []" by simp
      moreover from True q have "key q \<noteq> k"
        by (auto simp: filter_empty_conv)
      ultimately show ?thesis by simp
    next
      case False
      then have "?pets \<noteq> []" by simp
      then have "set (tl ?pets) = set ?g - {hd ?pets}"
        using set_tl_distinct [OF dpets] by simp
      then show ?thesis
        using q by (auto simp: keeper_def)
    qed
    finally show "(pk q \<notin> pk ` set (tl ?pets)) = (key q = k \<longrightarrow> q = keeper key k rws)"
      by blast
  qed
  then show ?thesis
    unfolding delete_rest_def fold_delete_pet len by simp
qed

lemma keeper_in_group:
  "filter (\<lambda>q. key q = k) rws \<noteq> [] \<Longrightarrow>
   keeper key k rws \<in> set rws \<and> key (keeper key k rws) = k"
proof -
  assume a: "filter (\<lambda>q. key q = k) rws \<noteq> []"
  then have "order_by_created_desc (filter (\<lambda>q. key q = k) rws) \<noteq> []" by simp
  then have "keeper key k rws \<in> set (order_by_created_desc (filter (\<lambda>q. key q = k) rws))"
    unfolding keeper_def by (rule hd_in_set)
  then show ?thesis by simp
qed

lemma sorted_map_le_last:
  "sorted (map f xs) \<Longrightarrow> x \<in> set xs \<Longrightarrow> f x \<le> f (last xs)"
  by (induction xs) auto

lemma keeper_most_recent:
  assumes "s \<in> set rws" "key s = k"
    and "\<forall>q\<in>set rws. key q = k \<and> q \<noteq> s \<longrightarrow> created_at q < created_at s"
  shows "keeper key k rws = s"
proof -
  let ?g = "filter (\<lambda>q. key q = k) rws"
  let ?xs = "sort_key created_at ?g"
  have sin: "s \<in> set ?xs"
    using assms(1,2) by simp
  then have ne: "?xs \<noteq> []"
    by (metis empty_iff list.set(1))
  have k: "keeper key k rws = last ?xs"
    using ne by (simp add: keeper_def order_by_created_desc_def hd_rev)
  have lin: "last ?xs \<in> set ?g"
    using last_in_set [OF ne] by simp
  have "sorted (map created_at ?xs)"
    by (rule sorted_sort_key)
  then have "created_at s \<le> created_at (last ?xs)"
    using sin by (rule sorted_map_le_last)
  then show ?thesis
    using assms(3) lin unfolding k by force
qed

lemma sweep_Nil [simp]: "sweep key [] st = st"
  by (simp add: sweep_def)

lemma sweep_Cons:
  assumes "distinct (map pk rws)"
  shows "sweep key (k # ks) (rws, c) =
           sweep key ks (filter (\<lambda>q. key q = k \<longrightarrow> q = keeper key k rws) rws,
                         c + (length (filter (\<lambda>q. key q = k) rws) - 1))"
  using sweep_step [OF assms, of key k c] by (simp add: sweep_def)

lemma length_filter_neq:
  "distinct xs \<Longrightarrow> x \<in> set xs \<Longrightarrow> length (filter (\<lambda>y. y \<noteq> x) xs) = length xs - 1"
proof (induction xs)
  case Nil
  then show ?case by simp
next
  case (Cons a xs)
  show ?case
  proof (cases "a = x")
    case True
    then have "x \<notin> set xs" using Cons.prems(1) by simp
    then have "filter (\<lambda>y. y \<noteq> x) xs = xs"
      by (auto simp: filter_id_conv)
    then show ?thesis using True by simp
  next
    case False
    then have "x \<in> set xs" using Cons.prems(2) by simp
    then have "0 < length xs" by (cases xs) auto
    then show ?thesis
      using False Cons.IH Cons.prems \<open>x \<in> set xs\<close> by simp
  qed
qed

lemma sweep_step_length:
  assumes "distinct (map pk rws)"
  shows "length (filter (\<lambda>q. key q = k \<longrightarrow> q = keeper key k rws) rws)
           + (length (filter (\<lambda>q. key q = k) rws) - 1) = length rws"
proof (cases "filter (\<lambda>q. key q = k) rws = []")
  case True
  then have "filter (\<lambda>q. key q = k \<longrightarrow> q = keeper key k rws) rws = rws"
    by (auto simp: filter_empty_conv filter_id_conv)
  with True show ?thesis by simp
next
  case False
  let ?g = "filter (\<lambda>q. key q = k) rws"
  have dg: "distinct ?g"
    using assms by (simp add: distinct_map)
  have kin: "keeper key k rws \<in> set ?g"
    using keeper_in_group [OF False] by simp
  have "filter (\<lambda>q. \<not> (key q = k \<longrightarrow> q = keeper key k rws)) rws =
        filter (\<lambda>y. y \<noteq> keeper key k rws) ?g"
    by (simp add: not_imp)
  then have "length (filter (\<lambda>q. \<not> (key q = k \<longrightarrow> q = keeper key k rws)) rws) = length ?g - 1"
    using length_filter_neq [OF dg kin] by simp
  then show ?thesis
    using sum_length_filter_compl [of "\<lambda>q. key q = k \<longrightarrow> q = keeper key k rws" rws] by simp
qed

lemma sweep_props:
  assumes "distinct (map pk rws)"
  shows "distinct (map pk (fst (sweep key ks (rws, c))))
       \<and> set (fst (sweep key ks (rws, c))) \<subseteq> set rws
       \<and> snd (sweep key ks (rws, c)) + length (fst (sweep key ks (rws, c))) = c + length rws"
  using assms
proof (induction ks arbitrary: rws c)
  case Nil
  then show ?case by simp
next
  case (Cons k ks)
  let ?r = "filter (\<lambda>q. key q = k \<longrightarrow> q = keeper key k rws) rws"
  let ?c = "c + (length (filter (\<lambda>q. key q = k) rws) - 1)"
  have d: "distinct (map pk ?r)"
    using Cons.prems by (rule distinct_map_filter)
  note ih = Cons.IH [OF d, of ?c]
  have len: "length ?r + (length (filter (\<lambda>q. key q = k) rws) - 1) = length rws"
    by (rule sweep_step_length [OF Cons.prems])
  have sub: "set ?r \<subseteq> set rws"
    by simp
  from ih have 1: "distinct (map pk (fst (sweep key ks (?r, ?c))))"
    and 2: "set (fst (sweep key ks (?r, ?c))) \<subseteq> set ?r"
    and 3: "snd (sweep key ks (?r, ?c)) + length (fst (sweep key ks (?r, ?c))) = ?c + length ?r"
    by blast+
  from 3 len have 4: "snd (sweep key ks (?r, ?c)) + length (fst (sweep key ks (?r, ?c))) = c + length rws"
    by linarith
  from 2 sub have 5: "set (fst (sweep key ks (?r, ?c))) \<subseteq> set rws"
    by (rule subset_trans)
  show ?case
    unfolding sweep_Cons [OF Cons.prems]
    using 1 4 5 by blast
qed

lemma sweep_survives:
  assumes "distinct (map pk rws)" and "s \<in> set rws"
    and "\<forall>q\<in>set rws. key q = key s \<and> q \<noteq> s \<longrightarrow> created_at q < created_at s"
  shows "s \<in> set (fst (sweep key ks (rws, c)))"
  using assms
proof (induction ks arbitrary: rws c)
  case Nil
  then show ?case by simp
next
  case (Cons k ks)
  let ?r = "filter (\<lambda>q. key q = k \<longrightarrow> q = keeper key k rws) rws"
  have d: "distinct (map pk ?r)"
    using Cons.prems(1) by (rule distinct_map_filter)
  have "key s = k \<longrightarrow> s = keeper key k rws"
    using keeper_most_recent [OF Cons.prems(2) refl Cons.prems(3)] by auto
  then have sin: "s \<in> set ?r"
    using Cons.prems(2) by simp
  have "\<forall>q\<in>set ?r. key q = key s \<and> q \<noteq> s \<longrightarrow> created_at q < created_at s"
    using Cons.prems(3) by simp
  then show ?case
    unfolding sweep_Cons [OF Cons.prems(1)]
    by (rule Cons.IH [OF d sin])
qed

lemma sweep_only_keeper:
  assumes "distinct (map pk rws)" and "s \<in> set rws"
    and "\<forall>q\<in>set rws. key q = key s \<and> q \<noteq> s \<longrightarrow> created_at q < created_at s"
    and "key s \<in> set ks"
  shows "\<forall>q\<in>set (fst (sweep key ks (rws, c))). key q = key s \<longrightarrow> q = s"
  using assms
proof (induction ks arbitrary: rws c)
  case Nil
  then show ?case by simp
next
  case (Cons k ks)
  let ?r = "filter (\<lambda>q. key q = k \<longrightarrow> q = keeper key k rws) rws"
  let ?c = "c + (length (filter (\<lambda>q. key q = k) rws) - 1)"
  have d: "distinct (map pk ?r)"
    using Cons.prems(1) by (rule distinct_map_filter)
  have ks: "key s = k \<longrightarrow> s = keeper key k rws"
    using keeper_most_recent [OF Cons.prems(2) refl Cons.prems(3)] by auto
  then have sin: "s \<in> set ?r"
    using Cons.prems(2) by simp
  have mx: "\<forall>q\<in>set ?r. key q = key s \<and> q \<noteq> s \<longrightarrow> created_at q < created_at s"
    using Cons.prems(3) by simp
  show ?case
  proof (cases "key s = k")
    case True
    then have "\<forall>q\<in>set ?r. key q = key s \<longrightarrow> q = s"
      using ks by auto
    moreover have "set (fst (sweep key ks (?r, ?c))) \<subseteq> set ?r"
      using sweep_props [OF d, of key ks ?c] by simp
    ultimately show ?thesis
      unfolding sweep_Cons [OF Cons.prems(1)] by blast
  next
    case False
    then have "key s \<in> set ks"
      using Cons.prems(4) by auto
    then show ?thesis
      unfolding sweep_Cons [OF Cons.prems(1)]
      by (rule Cons.IH [OF d sin mx])
  qed
qed

lemma filter_singleton:
  assumes "distinct xs" and "s \<in> set xs" and "P s" and "\<And>q. q \<in> set xs \<Longrightarrow> P q \<Longrightarrow> q = s"
  shows "filter P xs = [s]"
proof -
  have "filter P xs = filter (\<lambda>q. q = s) xs"
    using assms(3,4) by (intro filter_cong) auto
  also have "\<dots> = [s]"
    using assms(1,2)
  proof (induction xs)
    case Nil
    then show ?case by simp
  next
    case (Cons x xs)
    show ?case
    proof (cases "x = s")
      case True
      then have "s \<notin> set xs"
        using Cons.prems(1) by simp
      then have "filter (\<lambda>q. q = s) xs = []"
        by (auto simp: filter_empty_conv)
      then show ?thesis
        using True by simp
    next
      case False
      then have "filter (\<lambda>q. q = s) xs = [s]"
        using Cons.prems by (intro Cons.IH) simp_all
      then show ?thesis
        using False by simp
    qed
  qed
  finally show ?thesis .
qed

lemma profile_duplicates_mem:
  assumes "u \<noteq> []" and "1 < length (filter (\<lambda>q. profile_url q = Some u) ps)"
  shows "u \<in> set (profile_duplicates ps)"
proof -
  from assms(2) have "filter (\<lambda>q. profile_url q = Some u) ps \<noteq> []"
    by auto
  then obtain p where "p \<in> set ps" "profile_url p = Some u"
    by (auto simp: filter_empty_conv)
  then have "u \<in> set (concat (map (\<lambda>p. case profile_url p of None \<Rightarrow> [] | Some u \<Rightarrow> [u]) ps))"
    by force
  then show ?thesis
    using assms by (simp add: profile_duplicates_def)
qed

text \<open>
  C4 (as amended). The table has unique primary keys and more than one row with the
  non-empty profile URL \<open>u\<close>; these rows have pairwise distinct creation times and
  \<open>s\<close> is the most recent of them. If every row with another profile URL and the name
  and primary breed of \<open>s\<close> was created before \<open>s\<close>, then after
  \<open>remove_duplicate_pets\<close> the only row with profile URL \<open>u\<close> is \<open>s\<close>: all
  the others of the group are removed and no more of it. The rows left are rows of the
  table, and the returned count is the number of rows removed.
\<close>

theorem remove_duplicate_pets_keeps_most_recent:
  assumes pks: "distinct (map pk ps)"
    and u: "u \<noteq> []"
    and many: "1 < count_profile_url u ps"
    and stamps: "distinct (map created_at (filter (\<lambda>p. profile_url p = Some u) ps))"
    and s: "s \<in> set ps" "profile_url s = Some u"
    and recent: "\<forall>q\<in>set ps. profile_url q = Some u \<longrightarrow> created_at q \<le> created_at s"
    and others: "\<forall>q\<in>set ps. profile_url q \<noteq> Some u \<and> name q = name s
                    \<and> primary_breed q = primary_breed s \<longrightarrow> created_at q < created_at s"
  shows "filter (\<lambda>p. profile_url p = Some u) (snd (remove_duplicate_pets ps)) = [s]
       \<and> set (snd (remove_duplicate_pets ps)) \<subseteq> set ps
       \<and> count_profile_url u ps - count_profile_url u (snd (remove_duplicate_pets ps))
           = count_profile_url u ps - 1
       \<and> fst (remove_duplicate_pets ps) + length (snd (remove_duplicate_pets ps)) = length ps"
proof -
  let ?nb = "\<lambda>p. (name p, primary_breed p)"
  define s1 where "s1 = sweep profile_url (map Some (profile_duplicates ps)) (ps, 0)"
  define s2 where "s2 = sweep ?nb (name_breed_duplicates (fst s1)) (fst s1, snd s1)"
  have res: "remove_duplicate_pets ps = (snd s2, fst s2)"
    by (simp add: remove_duplicate_pets_def s1_def s2_def Let_def)
  have strict: "\<forall>q\<in>set ps. profile_url q = profile_url s \<and> q \<noteq> s \<longrightarrow> created_at q < created_at s"
  proof (intro ballI impI)
    fix q assume q: "q \<in> set ps" and "profile_url q = profile_url s \<and> q \<noteq> s"
    then have qu: "profile_url q = Some u" and ne: "q \<noteq> s"
      using s(2) by simp_all
    have "inj_on created_at (set (filter (\<lambda>p. profile_url p = Some u) ps))"
      using stamps by (simp add: distinct_map)
    moreover have "q \<in> set (filter (\<lambda>p. profile_url p = Some u) ps)"
      and "s \<in> set (filter (\<lambda>p. profile_url p = Some u) ps)"
      using q qu s by simp_all
    ultimately have "created_at q \<noteq> created_at s"
      using ne by (auto dest: inj_onD)
    moreover have "created_at q \<le> created_at s"
      using recent q qu by simp
    ultimately show "created_at q < created_at s"
      by simp
  qed
  have dup: "profile_url s \<in> set (map Some (profile_duplicates ps))"
    using profile_duplicates_mem [OF u] many s(2) by (simp add: count_profile_url_def)
  note p1 = sweep_props [OF pks, of profile_url "map Some (profile_duplicates ps)" 0, folded s1_def]
  have d1: "distinct (map pk (fst s1))" and sub1: "set (fst s1) \<subseteq> set ps"
    and c1: "snd s1 + length (fst s1) = length ps"
    using p1 by simp_all
  have in1: "s \<in> set (fst s1)"
    unfolding s1_def by (rule sweep_survives [OF pks s(1) strict])
  have only1: "\<forall>q\<in>set (fst s1). profile_url q = profile_url s \<longrightarrow> q = s"
    unfolding s1_def by (rule sweep_only_keeper [OF pks s(1) strict dup])
  have strict2: "\<forall>q\<in>set (fst s1). ?nb q = ?nb s \<and> q \<noteq> s \<longrightarrow> created_at q < created_at s"
  proof (intro ballI impI)
    fix q assume q: "q \<in> set (fst s1)" and a: "?nb q = ?nb s \<and> q \<noteq> s"
    then have "profile_url q \<noteq> Some u"
      using only1 s(2) by auto
    moreover have "q \<in> set ps"
      using q sub1 by auto
    ultimately show "created_at q < created_at s"
      using others a by simp
  qed
  note p2 = sweep_props [OF d1, of ?nb "name_breed_duplicates (fst s1)" "snd s1", folded s2_def]
  have d2: "distinct (map pk (fst s2))" and sub2: "set (fst s2) \<subseteq> set (fst s1)"
    and c2: "snd s2 + length (fst s2) = snd s1 + length (fst s1)"
    using p2 by simp_all
  have in2: "s \<in> set (fst s2)"
    unfolding s2_def by (rule sweep_survives [OF d1 in1 strict2])
  have "distinct (fst s2)"
    using d2 by (simp add: distinct_map)
  then have one: "filter (\<lambda>p. profile_url p = Some u) (fst s2) = [s]"
    using in2 s(2) only1 sub2 by (intro filter_singleton) (auto simp: s(2))
  then have "count_profile_url u (fst s2) = 1"
    by (simp add: count_profile_url_def)
  then have "count_profile_url u ps - count_profile_url u (fst s2) = count_profile_url u ps - 1"
    by simp
  then show ?thesis
    using one sub1 sub2 c1 c2 by (simp add: res)
qed

lemmas sweep_eval =
  remove_duplicate_pets_def sweep_def delete_rest_def delete_pet_def order_by_created_desc_def
  profile_duplicates_def name_breed_duplicates_def stored_pet_def Let_def

lemma relisted_pets_swept:
  "remove_duplicate_pets relisted_pets = (2, [stored_pet 3 ''Rex'' ''v'' ''Beagle'' 3])"
  by (simp add: relisted_pets_def sweep_eval)

lemma duplicated_pets_swept:
  "remove_duplicate_pets duplicated_pets =
     (1, [stored_pet 2 ''Rex'' ''u'' ''Beagle'' 2, stored_pet 3 ''Bella'' ''v'' ''Poodle'' 3])"
  by (simp add: duplicated_pets_def sweep_eval)

text \<open>
  The claim as stated has no condition on the other rows. In \<open>relisted_pets\<close> the two
  rows with profile URL \<open>u\<close> have distinct creation times; the first pass keeps the
  later one, and the second pass removes it, because the row with profile URL \<open>v\<close> has
  the same name and breed and is more recent. Both rows of the group are removed, not one.
\<close>

theorem remove_duplicate_pets_removes_whole_group:
  "distinct (map pk relisted_pets)
   \<and> count_profile_url ''u'' relisted_pets = 2
   \<and> distinct (map created_at relisted_pets)
   \<and> remove_duplicate_pets relisted_pets = (2, [stored_pet 3 ''Rex'' ''v'' ''Beagle'' 3])
   \<and> count_profile_url ''u'' (snd (remove_duplicate_pets relisted_pets)) = 0"
  by (simp add: relisted_pets_swept)
     (simp add: relisted_pets_def stored_pet_def count_profile_url_def)

theorem remove_duplicate_pets_keeps_most_recent_witness:
  "distinct (map pk duplicated_pets)
   \<and> ''u'' \<noteq> []
   \<and> 1 < count_profile_url ''u'' duplicated_pets
   \<and> distinct (map created_at (filter (\<lambda>p. profile_url p = Some ''u'') duplicated_pets))
   \<and> stored_pet 2 ''Rex'' ''u'' ''Beagle'' 2 \<in> set duplicated_pets
   \<and> filter (\<lambda>p. profile_url p = Some ''u'') (snd (remove_duplicate_pets duplicated_pets))
        = [stored_pet 2 ''Rex'' ''u'' ''Beagle'' 2]
   \<and> fst (remove_duplicate_pets duplicated_pets) + length (snd (remove_duplicate_pets duplicated_pets))
        = length duplicated_pets
   \<and> fst (remove_duplicate_pets duplicated_pets) = 1"
proof -
  have 1: "distinct (map pk duplicated_pets)"
    by (simp add: duplicated_pets_def stored_pet_def)
  have 2: "''u'' \<noteq> []"
    by simp
  have 3: "1 < count_profile_url ''u'' duplicated_pets"
    by (simp add: duplicated_pets_def stored_pet_def count_profile_url_def)
  have 4: "distinct (map created_at (filter (\<lambda>p. profile_url p = Some ''u'') duplicated_pets))"
    by (simp add: duplicated_pets_def stored_pet_def)
  have 5: "stored_pet 2 ''Rex'' ''u'' ''Beagle'' 2 \<in> set duplicated_pets"
    by (simp add: duplicated_pets_def)
  have 6: "profile_url (stored_pet 2 ''Rex'' ''u'' ''Beagle'' 2) = Some ''u''"
    by (simp add: stored_pet_def)
  have 7: "\<forall>q\<in>set duplicated_pets. profile_url q = Some ''u'' \<longrightarrow>
             created_at q \<le> created_at (stored_pet 2 ''Rex'' ''u'' ''Beagle'' 2)"
    by (simp add: duplicated_pets_def stored_pet_def)
  have 8: "\<forall>q\<in>set duplicated_pets. profile_url q \<noteq> Some ''u''
             \<and> name q = name (stored_pet 2 ''Rex'' ''u'' ''Beagle'' 2)
             \<and> primary_breed q = primary_breed (stored_pet 2 ''Rex'' ''u'' ''Beagle'' 2)
             \<longrightarrow> created_at q < created_at (stored_pet 2 ''Rex'' ''u'' ''Beagle'' 2)"
    by (simp add: duplicated_pets_def stored_pet_def)
  show ?thesis
    using 1 3 4 5 remove_duplicate_pets_keeps_most_recent [OF 1 2 3 4 5 6 7 8]
    by (simp add: duplicated_pets_swept)
qed

end
